theory Spec2Isabelle
  imports Complex_Main "HOL-Library.AList"
begin

section \<open>Singular Spectrum Analysis engine (vassal): data model\<close>

text \<open>
  The embedding follows \<^verbatim>\<open>vassal/base.py\<close> and \<^verbatim>\<open>vassal/ssa.py\<close>.
  Exceptions are values of \<open>error\<close>; a method that mutates \<^verbatim>\<open>self\<close> returns
  the new engine next to its result. \<^verbatim>\<open>BadCallError\<close> is the class defined in
  \<^verbatim>\<open>base.py\<close>; the other constructors are Python's built-in exceptions, with the
  message of the raise where the source gives one.
\<close>

datatype error =
    BadCallError
  | TypeError
  | ValueError string
  | IndexError
  | KeyError
  | AttributeError

text \<open>
  A float is a real number or a non-finite value (NaN, +inf or -inf). Two
  representations are used: \<open>pyfloat\<close> for the values a caller may pass in, where the
  three non-finite values are told apart, and \<open>real option\<close> for computed values, where
  \<open>None\<close> stands for any non-finite result. Finite arithmetic is taken to be exact.
\<close>

datatype pyfloat = Finite real | PosInf | NegInf | NaN

text \<open>
  A dense two-dimensional array (\<^verbatim>\<open>np.matrix\<close>, \<^verbatim>\<open>np.array\<close>): its shape and its
  rows. The entries are reals where the source only stores or multiplies finite values,
  and \<open>real option\<close> where it divides or takes a square root.
\<close>

record 'a mat =
  nrows :: nat
  ncols :: nat
  rows :: "'a list list"

type_synonym matrix = "real mat"

type_synonym svd_triple = "matrix \<times> real list \<times> matrix"

text \<open>
  The value of a user group: an integer, a list of integers, or (only through the merge
  loop of \<^verbatim>\<open>reconstruct\<close>) a string. A Python \<^verbatim>\<open>dict\<close> is an association list
  with distinct keys; the order of the list is the iteration order of the dictionary.
\<close>

datatype gval = IntV int | ListV "int list" | StrV string

type_synonym groupdict = "(string \<times> gval) list"

datatype ssa_class = BasicSSA | ToeplitzSSA

datatype svdmethod = Nplapack | Splapack | Sparpack | Skrandom

text \<open>
  The attributes of an engine object. \<open>svd\<close> is the three-element list
  \<^verbatim>\<open>self.svd\<close>, \<^verbatim>\<open>[None, None, None]\<close> until a decomposition is stored.
  \<open>traj_k\<close> is \<^verbatim>\<open>self._k\<close>, which only \<^verbatim>\<open>BasicSSA\<close> sets. The sequence holds
  finite reals: \<^verbatim>\<open>ssa\<close> rejects every other input before an engine is built (a
  sequence with a NaN handed to a constructor directly is not covered). The pandas
  index and name, which only label the returned series, are left out. A dictionary is
  held by value: the caller's later changes to a dictionary it passed in are not
  covered.
\<close>

record engine =
  cls :: ssa_class
  ts :: "real list"
  usetype :: string
  n_ts :: nat
  window :: int
  traj_k :: "int option"
  usergroups :: "groupdict option"
  svd :: "matrix option \<times> real list option \<times> matrix option"
  decompose_method :: svdmethod

section \<open>Construction\<close>

definition valid_types :: "string list" where
  "valid_types = [''pdseries'', ''nparray'']"

definition default_groups :: "string list" where
  "default_groups = [''ssa_original'', ''ssa_reconstruction'', ''ssa_residuals'']"

text \<open>The dictionary \<^verbatim>\<open>_SVD_METHODS_MAP\<close>, from method name to wrapper.\<close>

definition SVD_METHODS_MAP :: "(string \<times> svdmethod) list" where
  "SVD_METHODS_MAP =
     [(''nplapack'', Nplapack), (''splapack'', Splapack),
      (''sparpack'', Sparpack), (''skrandom'', Skrandom)]"

text \<open>
  \<^verbatim>\<open>BaseSSA.__init__\<close>. The sequence is a list of reals, so the checks that it is
  one-dimensional and real pass. For a \<open>usetype\<close> outside \<open>valid_types\<close> the source
  builds the message of its \<^verbatim>\<open>ValueError\<close> with \<^verbatim>\<open>self.__valid_types.join(', ')\<close>;
  a list has no \<^verbatim>\<open>join\<close>, so what is raised is an \<^verbatim>\<open>AttributeError\<close>. An unknown
  \<open>svdmethod\<close> is a missing key of \<open>SVD_METHODS_MAP\<close>. The base class has no
  window; the field is set by the constructors of the two classes below.
\<close>

definition BaseSSA_init :: "ssa_class \<Rightarrow> real list \<Rightarrow> string \<Rightarrow> string \<Rightarrow> error + engine" where
  "BaseSSA_init c xs svdm utype =
     (if utype \<notin> set valid_types then Inl AttributeError
      else case map_of SVD_METHODS_MAP svdm of
             None \<Rightarrow> Inl KeyError
           | Some meth \<Rightarrow>
               Inr \<lparr>cls = c, ts = xs, usetype = utype, n_ts = length xs, window = 0,
                    traj_k = None, usergroups = None, svd = (None, None, None),
                    decompose_method = meth\<rparr>)"

text \<open>
  \<^verbatim>\<open>BasicSSA.__init__\<close>: the window defaults to \<^verbatim>\<open>N // 2\<close>; any given window is
  stored as it is, and \<^verbatim>\<open>_k = N - window + 1\<close>.
\<close>

definition BasicSSA_init :: "real list \<Rightarrow> int option \<Rightarrow> string \<Rightarrow> string \<Rightarrow> error + engine" where
  "BasicSSA_init xs win svdm utype =
     (case BaseSSA_init BasicSSA xs svdm utype of
        Inl err \<Rightarrow> Inl err
      | Inr e \<Rightarrow>
          (let w = (case win of None \<Rightarrow> int (n_ts e) div 2 | Some w' \<Rightarrow> w')
           in Inr (e\<lparr>window := w, traj_k := Some (int (n_ts e) - w + 1)\<rparr>)))"

text \<open>\<^verbatim>\<open>ToeplitzSSA.__init__\<close>: the same, without \<^verbatim>\<open>_k\<close>.\<close>

definition ToeplitzSSA_init :: "real list \<Rightarrow> int option \<Rightarrow> string \<Rightarrow> string \<Rightarrow> error + engine" where
  "ToeplitzSSA_init xs win svdm utype =
     (case BaseSSA_init ToeplitzSSA xs svdm utype of
        Inl err \<Rightarrow> Inl err
      | Inr e \<Rightarrow>
          (let w = (case win of None \<Rightarrow> int (n_ts e) div 2 | Some w' \<Rightarrow> w')
           in Inr (e\<lparr>window := w\<rparr>)))"




section \<open>Group management\<close>

text \<open>\<^verbatim>\<open>_n_components\<close>: \<^verbatim>\<open>len(self.svd[1])\<close>; \<^verbatim>\<open>len(None)\<close> is a \<^verbatim>\<open>TypeError\<close>.\<close>

definition n_components :: "engine \<Rightarrow> error + nat" where
  "n_components e = (case svd e of (_, None, _) \<Rightarrow> Inl TypeError | (_, Some s, _) \<Rightarrow> Inr (length s))"

text \<open>
  Modelled from the spec: \<^verbatim>\<open>is_valid_group_dict\<close> of the module \<^verbatim>\<open>dtypes\<close>, which is
  not among the sources. A group mapping goes from a string to a single integer or a
  list of integers; the keys of a \<open>groupdict\<close> are strings already.
\<close>

fun valid_gval :: "gval \<Rightarrow> bool" where
  "valid_gval (IntV _) = True"
| "valid_gval (ListV _) = True"
| "valid_gval (StrV _) = False"

definition is_valid_group_dict :: "groupdict \<Rightarrow> bool" where
  "is_valid_group_dict g = list_all (\<lambda>(name, v). valid_gval v) g"

text \<open>
  Modelled from the spec: \<^verbatim>\<open>nested2d_to_flatlist\<close> of the module \<^verbatim>\<open>dtypes\<close>, which is
  not among the sources. It gives the indices of all user groups as one flat list; a
  string value, which is not an index, contributes none.
\<close>

fun gval_indices :: "gval \<Rightarrow> int list" where
  "gval_indices (IntV i) = [i]"
| "gval_indices (ListV is) = is"
| "gval_indices (StrV _) = []"

definition nested2d_to_flatlist :: "gval list \<Rightarrow> int list" where
  "nested2d_to_flatlist vs = concat (map gval_indices vs)"

text \<open>\<^verbatim>\<open>range(n)\<close>.\<close>

definition py_range :: "nat \<Rightarrow> int list" where
  "py_range n = map int [0..<n]"

text \<open>
  The property \<^verbatim>\<open>groups\<close>. The test \<^verbatim>\<open>if self._usergroups\<close> holds of a dictionary
  with at least one entry, not of \<^verbatim>\<open>None\<close> and not of the empty dictionary. The value
  \<open>None\<close> of an entry is Python's \<^verbatim>\<open>None\<close>, stored under \<^verbatim>\<open>'ssa_original'\<close>.
  \<^verbatim>\<open>dict(zip(allnames, allvals))\<close> inserts the pairs in order, a later pair replacing
  an earlier one with the same name.
\<close>

definition groups :: "engine \<Rightarrow> error + (string \<times> gval option) list" where
  "groups e =
     (case n_components e of
        Inl err \<Rightarrow> Inl err
      | Inr n \<Rightarrow>
          (case usergroups e of
             Some (g # gs) \<Rightarrow>
               (let ug = g # gs;
                    usernames = map fst ug;
                    allnames = take 2 default_groups @ usernames @ [last default_groups];
                    useridx = map snd ug;
                    flat_useridx = set (nested2d_to_flatlist useridx);
                    residualidx = filter (\<lambda>i. i \<notin> flat_useridx) (py_range n);
                    allvals = [None, Some (ListV (py_range n))] @ map Some useridx
                              @ [Some (ListV residualidx)]
                in Inr (AList.updates allnames allvals []))
           | _ \<Rightarrow>
               (let allnames = take 2 default_groups;
                    allvals = [None, Some (ListV (py_range n))]
                in Inr (AList.updates allnames allvals []))))"

text \<open>
  The loop \<^verbatim>\<open>for key, values in newgrp: self._usergroups[key] = values\<close>. Iterating
  a dictionary yields its keys, so each name is itself unpacked into \<open>key\<close> and
  \<open>values\<close>: a name of two characters gives two one-character strings, any other length
  raises \<^verbatim>\<open>ValueError\<close>. The dictionary is updated in place, so the entries stored
  before a raise stay.
\<close>

fun merge_loop :: "string list \<Rightarrow> groupdict \<Rightarrow> (error + unit) \<times> groupdict" where
  "merge_loop [] ug = (Inr (), ug)"
| "merge_loop (name # names) ug =
     (case name of
        [c1, c2] \<Rightarrow> merge_loop names (AList.update [c1] (StrV [c2]) ug)
      | [] \<Rightarrow> (Inl (ValueError ''need more than 0 values to unpack''), ug)
      | [c1] \<Rightarrow> (Inl (ValueError ''need more than 1 value to unpack''), ug)
      | _ \<Rightarrow> (Inl (ValueError ''too many values to unpack''), ug))"

definition svd_any_none :: "engine \<Rightarrow> bool" where
  "svd_any_none e = (case svd e of (Some _, Some _, Some _) \<Rightarrow> False | _ \<Rightarrow> True)"

text \<open>
  The method \<^verbatim>\<open>reconstruct(groups, append, overwrite)\<close>, which defines the user
  groups. The argument \<open>None\<close> is the default \<^verbatim>\<open>groups=None\<close>, which is not a
  dictionary; \<open>do_append\<close> is the parameter \<^verbatim>\<open>append\<close>.
\<close>

definition reconstruct :: "groupdict option \<Rightarrow> bool \<Rightarrow> bool \<Rightarrow> engine \<Rightarrow> (error + unit) \<times> engine" where
  "reconstruct grps do_append overwrite e =
     (if svd_any_none e then (Inl BadCallError, e)
      else case grps of
        None \<Rightarrow> (Inl TypeError, e)
      | Some g \<Rightarrow>
          if \<not> is_valid_group_dict g
          then (Inl (ValueError ''Invalid group dict. Keys should be type str and values type int or list of int.''), e)
          else (case usergroups e of
                  None \<Rightarrow> (Inr (), e\<lparr>usergroups := Some g\<rparr>)
                | Some oldgrp \<Rightarrow>
                    if \<not> do_append then (Inr (), e\<lparr>usergroups := Some g\<rparr>)
                    else
                      (let newgrp = g;
                           common_names = filter (\<lambda>name. name \<in> set (map fst oldgrp)) (map fst newgrp)
                       in if common_names \<noteq> [] \<and> \<not> overwrite
                          then (Inl (ValueError ''Group keys cannot be overwritten with overwrite parameters set to False.''), e)
                          else (case merge_loop (map fst newgrp) oldgrp of
                                  (r, ug') \<Rightarrow> (r, e\<lparr>usergroups := Some ug'\<rparr>)))))"

section \<open>Embedding\<close>

text \<open>The slice \<^verbatim>\<open>xs[i:j]\<close> for \<open>0 \<le> i\<close> and \<open>0 \<le> j\<close>.\<close>

definition py_slice :: "'a list \<Rightarrow> nat \<Rightarrow> nat \<Rightarrow> 'a list" where
  "py_slice xs i j = take (j - i) (drop i xs)"

text \<open>
  \<^verbatim>\<open>BasicSSA._embedseries\<close>: \<^verbatim>\<open>np.zeros\<close> refuses a negative dimension; column \<open>i\<close>
  of the \<open>(w, k)\<close> array is the slice \<^verbatim>\<open>ts[i:i + w]\<close>. NumPy raises when a slice does
  not have the length of the column (it would broadcast a slice of length one); with
  \<open>k = N - w + 1\<close>, as the constructor sets it, every slice has length \<open>w\<close>.
\<close>

definition BasicSSA_embedseries :: "engine \<Rightarrow> error + matrix" where
  "BasicSSA_embedseries e =
     (case traj_k e of
        None \<Rightarrow> Inl AttributeError
      | Some k \<Rightarrow>
          (let w = window e in
           if w < 0 \<or> k < 0 then Inl (ValueError ''negative dimensions are not allowed'')
           else
             (let cols = map (\<lambda>i. py_slice (ts e) i (i + nat w)) [0..<nat k] in
              if \<not> list_all (\<lambda>c. length c = nat w) cols
              then Inl (ValueError ''could not broadcast input array'')
              else Inr \<lparr>nrows = nat w, ncols = nat k,
                        rows = map (\<lambda>r. map (\<lambda>c. c ! r) cols) [0..<nat w]\<rparr>)))"

text \<open>
  \<^verbatim>\<open>ToeplitzSSA._embedseries\<close>: an \<open>(n, k)\<close> array of zeros with \<open>k\<close> the window;
  the first \<open>n - i\<close> entries of column \<open>i\<close> are \<^verbatim>\<open>ts[i:]\<close>. For \<open>n < i < 2 n\<close> the
  target \<^verbatim>\<open>x[:n-i, i]\<close> has a negative stop and \<open>2 n - i\<close> entries while \<^verbatim>\<open>ts[i:]\<close> is
  empty, and the assignment raises, as it does when \<open>n\<close> is not the length of the
  sequence (the constructor sets it so).
\<close>

definition ToeplitzSSA_embedseries :: "engine \<Rightarrow> error + matrix" where
  "ToeplitzSSA_embedseries e =
     (let k = window e; n = n_ts e in
      if k < 0 then Inl (ValueError ''negative dimensions are not allowed'')
      else if list_ex (\<lambda>i. n < i \<and> i < 2 * n) [0..<nat k] \<or> length (ts e) \<noteq> n
      then Inl (ValueError ''could not broadcast input array'')
      else
        (let cols = map (\<lambda>i. drop i (ts e) @ replicate (n - length (drop i (ts e))) 0) [0..<nat k]
         in Inr \<lparr>nrows = n, ncols = nat k,
                  rows = map (\<lambda>r. map (\<lambda>c. c ! r) cols) [0..<n]\<rparr>))"

text \<open>The abstract method \<^verbatim>\<open>_embedseries\<close>, resolved by the class of the object.\<close>

definition embedseries :: "engine \<Rightarrow> error + matrix" where
  "embedseries e =
     (case cls e of BasicSSA \<Rightarrow> BasicSSA_embedseries e | ToeplitzSSA \<Rightarrow> ToeplitzSSA_embedseries e)"

subsection \<open>Float operations\<close>

text \<open>
  Division by zero gives NaN or an infinity with a warning, not an exception; the
  square root of a negative number is NaN; a non-finite operand makes sum, product and
  quotient non-finite (the source never divides by a computed non-finite value).
\<close>

definition fsqrt :: "real \<Rightarrow> real option" where
  "fsqrt a = (if a < 0 then None else Some (sqrt a))"

definition fdiv :: "real option \<Rightarrow> real option \<Rightarrow> real option" where
  "fdiv a d =
     (case (a, d) of
        (Some a', Some d') \<Rightarrow> if d' = 0 then None else Some (a' / d')
      | _ \<Rightarrow> None)"

definition fmul :: "real option \<Rightarrow> real option \<Rightarrow> real option" where
  "fmul a b = (case (a, b) of (Some a', Some b') \<Rightarrow> Some (a' * b') | _ \<Rightarrow> None)"

definition fadd :: "real option \<Rightarrow> real option \<Rightarrow> real option" where
  "fadd a b = (case (a, b) of (Some a', Some b') \<Rightarrow> Some (a' + b') | _ \<Rightarrow> None)"

text \<open>\<^verbatim>\<open>np.sum\<close> and \<^verbatim>\<open>np.mean\<close> of a one-dimensional array; the mean of no value is NaN.\<close>

definition fsum :: "real option list \<Rightarrow> real option" where
  "fsum xs = fold (\<lambda>a acc. fadd acc a) xs (Some 0)"

definition fmean :: "real option list \<Rightarrow> real option" where
  "fmean xs = fdiv (fsum xs) (Some (real (length xs)))"

subsection \<open>Lag covariance\<close>

text \<open>
  \<^verbatim>\<open>ToeplitzSSA._covariance_matrix\<close>: \<open>x\<close> becomes the first column of the argument
  (an \<^verbatim>\<open>IndexError\<close> when there is no column), \<open>n\<close> its length; every entry starts as
  \<^verbatim>\<open>np.sum(x*x)/n\<close>, and the entries off the diagonal are replaced by
  \<^verbatim>\<open>np.sum(x[:-dt]*x[dt:])/(n - dt)\<close> with \<open>dt = |i - j|\<close>.
\<close>

definition column :: "'a mat \<Rightarrow> nat \<Rightarrow> 'a list" where
  "column a j = map (\<lambda>row. row ! j) (rows a)"

definition lagged_sum :: "real list \<Rightarrow> nat \<Rightarrow> real" where
  "lagged_sum x dt = sum_list (map2 (*) (take (length x - dt) x) (drop dt x))"

definition covariance_matrix :: "engine \<Rightarrow> matrix \<Rightarrow> error + real option mat" where
  "covariance_matrix e xm =
     (let k = window e in
      if ncols xm = 0 then Inl IndexError
      else
        (let x = column xm 0; n = length x in
         if k < 0 then Inl (ValueError ''negative dimensions are not allowed'')
         else Inr \<lparr>nrows = nat k, ncols = nat k,
                   rows = map (\<lambda>i. map (\<lambda>j.
                              if i \<noteq> j
                              then (let dt = nat \<bar>int i - int j\<bar> in
                                    fdiv (Some (lagged_sum x dt)) (Some (real_of_int (int n - int dt))))
                              else fdiv (Some (sum_list (map2 (*) x x))) (Some (real n)))
                            [0..<nat k]) [0..<nat k]\<rparr>))"

text \<open>\<^verbatim>\<open>_svdmatrix\<close> of the two classes.\<close>

definition to_float :: "matrix \<Rightarrow> real option mat" where
  "to_float a = \<lparr>nrows = nrows a, ncols = ncols a, rows = map (map Some) (rows a)\<rparr>"

definition svdmatrix :: "engine \<Rightarrow> error + real option mat" where
  "svdmatrix e =
     (case cls e of
        BasicSSA \<Rightarrow> (case BasicSSA_embedseries e of Inl err \<Rightarrow> Inl err | Inr x \<Rightarrow> Inr (to_float x))
      | ToeplitzSSA \<Rightarrow>
          (case ToeplitzSSA_embedseries e of Inl err \<Rightarrow> Inl err | Inr x \<Rightarrow> covariance_matrix e x))"

section \<open>Decomposition\<close>

text \<open>
  The factorization routines belong to NumPy, SciPy and scikit-learn; the wrappers are
  given them as parameters. A routine takes the matrix and the options that shape its
  result (\<open>full_matrices\<close>, the rank \<open>k\<close>); the remaining keyword arguments are part of
  the routine passed in. A routine may raise.
\<close>

record svd_routines =
  nplapack :: "matrix \<Rightarrow> bool \<Rightarrow> error + svd_triple"
  splapack :: "matrix \<Rightarrow> bool \<Rightarrow> error + svd_triple"
  sparpack :: "matrix \<Rightarrow> int \<Rightarrow> error + svd_triple"
  randomized_svd :: "matrix \<Rightarrow> int \<Rightarrow> error + svd_triple"

text \<open>
  \<^verbatim>\<open>sklearn.utils.extmath.svd_flip(u, v)\<close>, by its documented behaviour: the sign of
  each column of \<open>u\<close> is that of its entry of largest absolute value (the first one
  among equals, as \<^verbatim>\<open>argmax\<close> picks it); column \<open>j\<close> of \<open>u\<close> and row \<open>j\<close> of \<open>v\<close> are
  multiplied by it. \<^verbatim>\<open>argmax\<close> raises on a column without entries, and the product
  raises unless \<open>v\<close> has a row for every column of \<open>u\<close>.
\<close>

fun dominant :: "real list \<Rightarrow> real" where
  "dominant [] = 0"
| "dominant (a # as) = (if \<forall>b \<in> set as. \<bar>b\<bar> \<le> \<bar>a\<bar> then a else dominant as)"

definition svd_flip :: "matrix \<Rightarrow> matrix \<Rightarrow> error + (matrix \<times> matrix)" where
  "svd_flip u v =
     (if nrows u = 0 then Inl (ValueError ''attempt to get argmax of an empty sequence'')
      else if nrows v \<noteq> ncols u then Inl (ValueError ''operands could not be broadcast together'')
      else
        (let signs = map (\<lambda>j. sgn (dominant (column u j))) [0..<ncols u] in
         Inr (u\<lparr>rows := map (\<lambda>row. map2 (*) row signs) (rows u)\<rparr>,
              v\<lparr>rows := map2 (\<lambda>sg row. map ((*) sg) row) signs (rows v)\<rparr>)))"

text \<open>\<^verbatim>\<open>u[:, ::-1]\<close> and \<^verbatim>\<open>v[::-1, :]\<close>.\<close>

definition reverse_columns :: "matrix \<Rightarrow> matrix" where
  "reverse_columns a = a\<lparr>rows := map rev (rows a)\<rparr>"

definition reverse_rows :: "matrix \<Rightarrow> matrix" where
  "reverse_rows a = a\<lparr>rows := rev (rows a)\<rparr>"

text \<open>
  The four wrappers. Each embeds the series with \<^verbatim>\<open>self._embedseries()\<close>, calls its
  routine on that matrix, stores the triple in \<^verbatim>\<open>self.svd\<close> and returns it. The two
  LAPACK wrappers store what the routine returns; the ARPACK wrapper reverses the order
  of the components and applies \<open>svd_flip\<close>; the randomized routine is called with
  \<^verbatim>\<open>flip_sign=True\<close>. The rank of the last two defaults to \<^verbatim>\<open>min(x.shape) - 1\<close>.
\<close>

definition store_svd :: "svd_triple \<Rightarrow> engine \<Rightarrow> svd_triple \<times> engine" where
  "store_svd t e = (case t of (u, s, v) \<Rightarrow> (t, e\<lparr>svd := (Some u, Some s, Some v)\<rparr>))"

definition nplapack_wrapper :: "svd_routines \<Rightarrow> bool \<Rightarrow> engine \<Rightarrow> error + svd_triple \<times> engine" where
  "nplapack_wrapper lib full_matrices e =
     (case embedseries e of
        Inl err \<Rightarrow> Inl err
      | Inr x \<Rightarrow>
          (case nplapack lib x full_matrices of
             Inl err \<Rightarrow> Inl err
           | Inr (u, s, v) \<Rightarrow> Inr (store_svd (u, s, v) e)))"

definition splapack_wrapper :: "svd_routines \<Rightarrow> bool \<Rightarrow> engine \<Rightarrow> error + svd_triple \<times> engine" where
  "splapack_wrapper lib full_matrices e =
     (case embedseries e of
        Inl err \<Rightarrow> Inl err
      | Inr x \<Rightarrow>
          (case splapack lib x full_matrices of
             Inl err \<Rightarrow> Inl err
           | Inr (u, s, v) \<Rightarrow> Inr (store_svd (u, s, v) e)))"

definition default_rank :: "matrix \<Rightarrow> int option \<Rightarrow> int" where
  "default_rank x k = (case k of None \<Rightarrow> int (min (nrows x) (ncols x)) - 1 | Some k' \<Rightarrow> k')"

definition sparpack_wrapper :: "svd_routines \<Rightarrow> int option \<Rightarrow> engine \<Rightarrow> error + svd_triple \<times> engine" where
  "sparpack_wrapper lib k e =
     (case embedseries e of
        Inl err \<Rightarrow> Inl err
      | Inr x \<Rightarrow>
          (case sparpack lib x (default_rank x k) of
             Inl err \<Rightarrow> Inl err
           | Inr (u, s, v) \<Rightarrow>
               (case svd_flip (reverse_columns u) (reverse_rows v) of
                  Inl err \<Rightarrow> Inl err
                | Inr (u', v') \<Rightarrow> Inr (store_svd (u', rev s, v') e))))"

definition skrandom_wrapper :: "svd_routines \<Rightarrow> int option \<Rightarrow> engine \<Rightarrow> error + svd_triple \<times> engine" where
  "skrandom_wrapper lib k e =
     (case embedseries e of
        Inl err \<Rightarrow> Inl err
      | Inr x \<Rightarrow>
          (case randomized_svd lib x (default_rank x k) of
             Inl err \<Rightarrow> Inl err
           | Inr (u, s, v) \<Rightarrow> Inr (store_svd (u, s, v) e)))"

text \<open>
  \<^verbatim>\<open>self.decompose\<close>, bound by the constructor to the wrapper of the chosen method;
  called without arguments, as the tests do for the LAPACK methods.
\<close>

definition decompose :: "svd_routines \<Rightarrow> int option \<Rightarrow> engine \<Rightarrow> error + svd_triple \<times> engine" where
  "decompose lib k e =
     (case decompose_method e of
        Nplapack \<Rightarrow> nplapack_wrapper lib True e
      | Splapack \<Rightarrow> splapack_wrapper lib True e
      | Sparpack \<Rightarrow> sparpack_wrapper lib k e
      | Skrandom \<Rightarrow> skrandom_wrapper lib k e)"

section \<open>Reconstruction\<close>

text \<open>
  Indexing a sequence of length \<open>len\<close> with a Python integer: a negative index counts
  from the end, an index outside \<open>[-len, len)\<close> raises \<^verbatim>\<open>IndexError\<close>.
\<close>

definition py_index :: "nat \<Rightarrow> int \<Rightarrow> nat option" where
  "py_index len i =
     (if 0 \<le> i \<and> i < int len then Some (nat i)
      else if - int len \<le> i \<and> i < 0 then Some (nat (int len + i))
      else None)"

text \<open>\<^verbatim>\<open>range(a, b)\<close> and the slice \<^verbatim>\<open>xs[:j]\<close> for any integer \<open>j\<close>.\<close>

definition py_range2 :: "int \<Rightarrow> int \<Rightarrow> int list" where
  "py_range2 a b = map (\<lambda>t. a + int t) [0..<nat (b - a)]"

definition py_upto :: "'a list \<Rightarrow> int \<Rightarrow> 'a list" where
  "py_upto xs j = (if 0 \<le> j then take (nat j) xs else take (length xs - nat (- j)) xs)"

text \<open>
  One pass of the loop of \<^verbatim>\<open>BasicSSA._reconstruct_group\<close>, for the index \<open>i\<close>:
  \<^verbatim>\<open>s_i = np.sqrt(s[i])\<close>, \<^verbatim>\<open>u_i = u[:, i]\<close>, \<^verbatim>\<open>v_i = x.T * u_i / s_i\<close> and
  \<^verbatim>\<open>x_i = s_i * u_i * v_i.T\<close>, the product of the column \<open>s_i * u_i\<close> with the row
  \<open>v_i.T\<close>. Subscripting \<^verbatim>\<open>None\<close> is a \<^verbatim>\<open>TypeError\<close>; the matrix product raises
  unless \<open>u\<close> has as many rows as \<open>x\<close>.
\<close>

definition BasicSSA_component ::
    "matrix option \<times> real list option \<times> matrix option \<Rightarrow> matrix \<Rightarrow> int \<Rightarrow> error + real option list list" where
  "BasicSSA_component usv x i =
     (case usv of
        (_, None, _) \<Rightarrow> Inl TypeError
      | (None, Some s, _) \<Rightarrow>
          (case py_index (length s) i of None \<Rightarrow> Inl IndexError | Some _ \<Rightarrow> Inl TypeError)
      | (Some u, Some s, _) \<Rightarrow>
          (case py_index (length s) i of
             None \<Rightarrow> Inl IndexError
           | Some si \<Rightarrow>
               (case py_index (ncols u) i of
                  None \<Rightarrow> Inl IndexError
                | Some ui \<Rightarrow>
                    if nrows u \<noteq> nrows x then Inl (ValueError ''shapes not aligned'')
                    else
                      (let s_i = fsqrt (s ! si);
                           u_i = column u ui;
                           xtu = map (\<lambda>c. sum_list (map2 (*) (column x c) u_i)) [0..<ncols x];
                           v_i = map (\<lambda>a. fdiv (Some a) s_i) xtu;
                           su = map (\<lambda>a. fmul s_i (Some a)) u_i
                       in Inr (map (\<lambda>a. map (\<lambda>b. fmul a b) v_i) su)))))"

text \<open>
  The same pass in \<^verbatim>\<open>ToeplitzSSA._reconstruct_group\<close>: \<^verbatim>\<open>v_i = np.dot(x, u_i) / s_i\<close>,
  which raises unless \<open>u\<close> has as many rows as \<open>x\<close> has columns, and the matrix added
  to the sum is the transpose \<^verbatim>\<open>x_i.T\<close>.
\<close>

definition ToeplitzSSA_component ::
    "matrix option \<times> real list option \<times> matrix option \<Rightarrow> matrix \<Rightarrow> int \<Rightarrow> error + real option list list" where
  "ToeplitzSSA_component usv x i =
     (case usv of
        (_, None, _) \<Rightarrow> Inl TypeError
      | (None, Some s, _) \<Rightarrow>
          (case py_index (length s) i of None \<Rightarrow> Inl IndexError | Some _ \<Rightarrow> Inl TypeError)
      | (Some u, Some s, _) \<Rightarrow>
          (case py_index (length s) i of
             None \<Rightarrow> Inl IndexError
           | Some si \<Rightarrow>
               (case py_index (ncols u) i of
                  None \<Rightarrow> Inl IndexError
                | Some ui \<Rightarrow>
                    if nrows u \<noteq> ncols x then Inl (ValueError ''shapes not aligned'')
                    else
                      (let s_i = fsqrt (s ! si);
                           u_i = column u ui;
                           xu = map (\<lambda>row. sum_list (map2 (*) row u_i)) (rows x);
                           v_i = map (\<lambda>a. fdiv (Some a) s_i) xu;
                           su = map (\<lambda>a. fmul s_i (Some a)) u_i
                       in Inr (map (\<lambda>b. map (\<lambda>a. fmul a b) su) v_i)))))"

text \<open>\<^verbatim>\<open>x_grp += x_i\<close> on arrays of one shape, and the loop over the indices.\<close>

definition madd :: "real option list list \<Rightarrow> real option list list \<Rightarrow> real option list list" where
  "madd a b = map2 (map2 fadd) a b"

fun group_loop ::
    "(int \<Rightarrow> error + real option list list) \<Rightarrow> int list \<Rightarrow> real option list list
       \<Rightarrow> error + real option list list" where
  "group_loop component [] x_grp = Inr x_grp"
| "group_loop component (i # idx) x_grp =
     (case component i of
        Inl err \<Rightarrow> Inl err
      | Inr x_i \<Rightarrow> group_loop component idx (madd x_grp x_i))"

text \<open>
  \<^verbatim>\<open>x[::-1, :].diagonal(i)\<close> of an \<open>(m, n)\<close> array given by its rows \<open>f\<close> (already
  reversed), and \<^verbatim>\<open>_hankelmatrix_to_ts\<close>: the mean of each diagonal, for the offsets
  \<^verbatim>\<open>range(-m + 1, n)\<close>. The Toeplitz variant returns the slice \<^verbatim>\<open>[:-(n-1)]\<close> of it.
\<close>

definition diagonal :: "'a list list \<Rightarrow> nat \<Rightarrow> nat \<Rightarrow> int \<Rightarrow> 'a list" where
  "diagonal f m n i =
     (if 0 \<le> i
      then map (\<lambda>j. f ! j ! (j + nat i)) [0..<min m (n - nat i)]
      else map (\<lambda>j. f ! (j + nat (- i)) ! j) [0..<min (m - nat (- i)) n])"

definition BasicSSA_hankelmatrix_to_ts :: "real option mat \<Rightarrow> real option list" where
  "BasicSSA_hankelmatrix_to_ts x =
     map (\<lambda>i. fmean (diagonal (rev (rows x)) (nrows x) (ncols x) i))
         (py_range2 (- int (nrows x) + 1) (int (ncols x)))"

definition ToeplitzSSA_hankelmatrix_to_ts :: "real option mat \<Rightarrow> real option list" where
  "ToeplitzSSA_hankelmatrix_to_ts x =
     (let m = nrows x; n = ncols x;
          means = map (\<lambda>i. fmean (diagonal (rev (rows x)) m n i)) (py_range2 (- int m + 1) (int n))
      in py_upto means (- (int n - 1)))"

text \<open>
  The index argument as the loop sees it: an integer is wrapped in a list; \<^verbatim>\<open>None\<close>
  is not iterable; the characters of a string do not index an array.
\<close>

fun group_indices :: "gval option \<Rightarrow> error + int list" where
  "group_indices None = Inl TypeError"
| "group_indices (Some (IntV i)) = Inr [i]"
| "group_indices (Some (ListV is)) = Inr is"
| "group_indices (Some (StrV str)) = (if str = [] then Inr [] else Inl IndexError)"

text \<open>
  \<^verbatim>\<open>_reconstruct_group(idx)\<close> of the two classes: the sum of the component matrices,
  starting from zeros of the shape of the embedding, then the diagonal averaging.
\<close>

definition zeros :: "nat \<Rightarrow> nat \<Rightarrow> real option list list" where
  "zeros m n = replicate m (replicate n (Some 0))"

definition BasicSSA_reconstruct_group :: "gval option \<Rightarrow> engine \<Rightarrow> error + real option list" where
  "BasicSSA_reconstruct_group grpidx e =
     (case BasicSSA_embedseries e of
        Inl err \<Rightarrow> Inl err
      | Inr x \<Rightarrow>
          (let m = nrows x; n = ncols x in
           case group_indices grpidx of
             Inl err \<Rightarrow> Inl err
           | Inr idx \<Rightarrow>
               (case group_loop (BasicSSA_component (svd e) x) idx (zeros m n) of
                  Inl err \<Rightarrow> Inl err
                | Inr x_grp \<Rightarrow>
                    Inr (BasicSSA_hankelmatrix_to_ts \<lparr>nrows = m, ncols = n, rows = x_grp\<rparr>))))"

definition ToeplitzSSA_reconstruct_group :: "gval option \<Rightarrow> engine \<Rightarrow> error + real option list" where
  "ToeplitzSSA_reconstruct_group grpidx e =
     (case ToeplitzSSA_embedseries e of
        Inl err \<Rightarrow> Inl err
      | Inr x \<Rightarrow>
          (let m = nrows x; n = ncols x in
           case group_indices grpidx of
             Inl err \<Rightarrow> Inl err
           | Inr idx \<Rightarrow>
               (case group_loop (ToeplitzSSA_component (svd e) x) idx (zeros m n) of
                  Inl err \<Rightarrow> Inl err
                | Inr x_grp \<Rightarrow>
                    Inr (ToeplitzSSA_hankelmatrix_to_ts \<lparr>nrows = m, ncols = n, rows = x_grp\<rparr>))))"

definition reconstruct_group :: "gval option \<Rightarrow> engine \<Rightarrow> error + real option list" where
  "reconstruct_group grpidx e =
     (case cls e of
        BasicSSA \<Rightarrow> BasicSSA_reconstruct_group grpidx e
      | ToeplitzSSA \<Rightarrow> ToeplitzSSA_reconstruct_group grpidx e)"

text \<open>
  \<^verbatim>\<open>_getseries\<close> and \<^verbatim>\<open>__getitem__\<close>. The item is a string. \<^verbatim>\<open>self.groups\<close> is
  evaluated first; \<^verbatim>\<open>self._usergroups.keys()\<close> is an \<^verbatim>\<open>AttributeError\<close> while the
  user groups are \<^verbatim>\<open>None\<close>. The returned series holds the reconstructed values
  (\<^verbatim>\<open>_format_output_ts\<close> only changes the container).
\<close>

definition dict_get :: "('k \<times> 'v) list \<Rightarrow> 'k \<Rightarrow> error + 'v" where
  "dict_get d name = (case map_of d name of None \<Rightarrow> Inl KeyError | Some v \<Rightarrow> Inr v)"

definition getseries :: "string \<Rightarrow> engine \<Rightarrow> error + real option list" where
  "getseries grpkey e =
     (case groups e of
        Inl err \<Rightarrow> Inl err
      | Inr g \<Rightarrow>
          (case dict_get g grpkey of
             Inl err \<Rightarrow> Inl err
           | Inr grpidx \<Rightarrow> reconstruct_group grpidx e))"

definition getitem :: "string \<Rightarrow> engine \<Rightarrow> error + real option list" where
  "getitem item e =
     (case groups e of
        Inl err \<Rightarrow> Inl err
      | Inr _ \<Rightarrow>
          (case usergroups e of
             None \<Rightarrow> Inl AttributeError
           | Some ug \<Rightarrow>
               if item \<in> set (map fst ug) then getseries item e
               else if item = ''ssa_original'' then Inr (map Some (ts e))
               else if item = ''ssa_reconstruction''
                 then (case n_components e of
                         Inl err \<Rightarrow> Inl err
                       | Inr n \<Rightarrow> reconstruct_group (Some (ListV (py_range n))) e)
               else if item = ''ssa_residuals''
                 then (case groups e of
                         Inl err \<Rightarrow> Inl err
                       | Inr g \<Rightarrow>
                           (case dict_get g ''ssa_residuals'' of
                              Inl err \<Rightarrow> Inl err
                            | Inr residx \<Rightarrow> reconstruct_group residx e))
               else Inl IndexError))"

section \<open>Example engines\<close>

text \<open>
  The engine built by \<^verbatim>\<open>BasicSSA([1, 0, 0, 1])\<close> with the default window \<open>4 // 2\<close>.
  Its trajectory matrix has the rows \<open>(1, 0, 0)\<close> and \<open>(0, 0, 1)\<close>, which are
  orthonormal: the identity, the singular values \<open>(1, 1)\<close> and the permutation below
  are a singular value decomposition of it.
\<close>

definition fresh_engine :: engine where
  "fresh_engine =
     \<lparr>cls = BasicSSA, ts = [1, 0, 0, 1], usetype = ''pdseries'', n_ts = 4, window = 2,
      traj_k = Some 3, usergroups = None, svd = (None, None, None),
      decompose_method = Nplapack\<rparr>"

definition example_svd :: svd_triple where
  "example_svd =
     (\<lparr>nrows = 2, ncols = 2, rows = [[1, 0], [0, 1]]\<rparr>,
      [1, 1],
      \<lparr>nrows = 3, ncols = 3, rows = [[1, 0, 0], [0, 0, 1], [0, 1, 0]]\<rparr>)"


definition decomposed_engine :: engine where
  "decomposed_engine =
     fresh_engine\<lparr>svd := (Some (fst example_svd), Some (fst (snd example_svd)),
                           Some (snd (snd example_svd)))\<rparr>"

definition grouped_engine :: engine where
  "grouped_engine = decomposed_engine\<lparr>usergroups := Some [(''trend'', IntV 0)]\<rparr>"

text \<open>
  The engine built by \<^verbatim>\<open>ToeplitzSSA([1, 2, 3], window=2)\<close>, and the one built by
  \<^verbatim>\<open>BasicSSA([3, 4])\<close>, whose trajectory matrix is the row \<open>(3, 4)\<close>. The triple
  \<open>lapack_svd\<close> is a singular value decomposition of that row with the signs a
  Householder reduction gives, \<open>(3, 4) = (- 1) \<cdot> 5 \<cdot> (- 3/5, - 4/5)\<close>; \<open>lapack_lib\<close> is a
  library whose LAPACK routines return it.
\<close>

definition toeplitz_engine :: engine where
  "toeplitz_engine =
     \<lparr>cls = ToeplitzSSA, ts = [1, 2, 3], usetype = ''pdseries'', n_ts = 3, window = 2,
      traj_k = None, usergroups = None, svd = (None, None, None),
      decompose_method = Nplapack\<rparr>"

definition pair_engine :: engine where
  "pair_engine =
     \<lparr>cls = BasicSSA, ts = [3, 4], usetype = ''pdseries'', n_ts = 2, window = 1,
      traj_k = Some 2, usergroups = None, svd = (None, None, None),
      decompose_method = Nplapack\<rparr>"

definition lapack_svd :: svd_triple where
  "lapack_svd =
     (\<lparr>nrows = 1, ncols = 1, rows = [[- 1]]\<rparr>,
      [5],
      \<lparr>nrows = 2, ncols = 2, rows = [[- 3 / 5, - 4 / 5], [- 4 / 5, 3 / 5]]\<rparr>)"

definition lapack_lib :: svd_routines where
  "lapack_lib =
     \<lparr>nplapack = (\<lambda>x full_matrices. Inr lapack_svd),
      splapack = (\<lambda>x full_matrices. Inr lapack_svd),
      sparpack = (\<lambda>x k. Inl (ValueError ''k must be between 1 and min(A.shape)'')),
      randomized_svd = (\<lambda>x k. Inl (ValueError ''k must be between 1 and min(A.shape)''))\<rparr>"

text \<open>
  The engine built by \<^verbatim>\<open>BasicSSA([0, 0])\<close>, decomposed and given the user group
  \<open>trend\<close>. The trajectory matrix is the row \<open>(0, 0)\<close>, its one singular value is
  \<open>0\<close>, and any orthogonal matrices complete the decomposition; \<open>zero_lib\<close> is a
  library whose LAPACK routines return the identity matrices.
\<close>

definition zero_svd :: svd_triple where
  "zero_svd =
     (\<lparr>nrows = 1, ncols = 1, rows = [[1]]\<rparr>,
      [0],
      \<lparr>nrows = 2, ncols = 2, rows = [[1, 0], [0, 1]]\<rparr>)"

definition zero_lib :: svd_routines where
  "zero_lib =
     \<lparr>nplapack = (\<lambda>x full_matrices. Inr zero_svd),
      splapack = (\<lambda>x full_matrices. Inr zero_svd),
      sparpack = (\<lambda>x k. Inl (ValueError ''k must be between 1 and min(A.shape)'')),
      randomized_svd = (\<lambda>x k. Inl (ValueError ''k must be between 1 and min(A.shape)''))\<rparr>"

definition zero_engine :: engine where
  "zero_engine =
     \<lparr>cls = BasicSSA, ts = [0, 0], usetype = ''pdseries'', n_ts = 2, window = 1,
      traj_k = Some 2, usergroups = Some [(''trend'', IntV 0)],
      svd = (Some (fst zero_svd), Some (fst (snd zero_svd)), Some (snd (snd zero_svd))),
      decompose_method = Nplapack\<rparr>"

section \<open>Notions used to state the properties\<close>

text \<open>
  The indices in \<open>{0, \<dots>, n - 1}\<close> that belong to no user group, in increasing order.
\<close>

definition complement_indices :: "nat \<Rightarrow> groupdict \<Rightarrow> int list" where
  "complement_indices n ug =
     filter (\<lambda>i. list_all (\<lambda>(name, v). i \<notin> set (gval_indices v)) ug) (py_range n)"

text \<open>
  The pairs that \<^verbatim>\<open>zip(allnames, allvals)\<close> hands to \<^verbatim>\<open>dict\<close> when there are
  user groups.
\<close>

definition resolved_pairs :: "nat \<Rightarrow> groupdict \<Rightarrow> (string \<times> gval option) list" where
  "resolved_pairs n ug =
     (''ssa_original'', None) # (''ssa_reconstruction'', Some (ListV (py_range n)))
       # map (\<lambda>p. (fst p, Some (snd p))) ug
       @ [(''ssa_residuals'', Some (ListV (complement_indices n ug)))]"

text \<open>
  The sign rule of the canonical form: in every column of \<open>u\<close> the entry of largest
  absolute value is not negative. A matrix is well formed when its rows agree with its
  shape.
\<close>

definition sign_canonical :: "matrix \<Rightarrow> bool" where
  "sign_canonical u = list_all (\<lambda>j. 0 \<le> dominant (column u j)) [0..<ncols u]"

definition well_formed :: "'a mat \<Rightarrow> bool" where
  "well_formed a = (length (rows a) = nrows a \<and> list_all (\<lambda>row. length row = ncols a) (rows a))"

text \<open>
  The entry of a matrix, and the matrix with the entries \<open>g r c\<close>.
\<close>

definition entry :: "'a mat \<Rightarrow> nat \<Rightarrow> nat \<Rightarrow> 'a" where
  "entry a r c = rows a ! r ! c"

definition tabulate :: "nat \<Rightarrow> nat \<Rightarrow> (nat \<Rightarrow> nat \<Rightarrow> 'a) \<Rightarrow> 'a list list" where
  "tabulate m n g = map (\<lambda>r. map (\<lambda>c. g r c) [0..<n]) [0..<m]"

text \<open>
  A singular value decomposition of \<open>x\<close> of full rank \<open>R = min(shape)\<close>: well-formed
  factors of matching shapes, \<open>R\<close> singular values that are not negative and descend,
  \<open>x = u \<cdot> diag(s) \<cdot> v\<close> on the first \<open>R\<close> columns of \<open>u\<close> and rows of \<open>v\<close>, and these
  columns and rows orthonormal.
\<close>

definition orthonormal :: "nat \<Rightarrow> nat \<Rightarrow> (nat \<Rightarrow> nat \<Rightarrow> real) \<Rightarrow> bool" where
  "orthonormal k len f =
     list_all (\<lambda>i. list_all (\<lambda>j. (\<Sum>t\<leftarrow>[0..<len]. f i t * f j t) = (if i = j then 1 else 0))
                       [0..<k]) [0..<k]"

definition is_svd :: "matrix \<Rightarrow> svd_triple \<Rightarrow> bool" where
  "is_svd x usv =
     (case usv of (u, s, v) \<Rightarrow>
        well_formed u \<and> well_formed v \<and> nrows u = nrows x \<and> ncols v = ncols x
        \<and> length s = min (nrows x) (ncols x) \<and> length s \<le> ncols u \<and> length s \<le> nrows v
        \<and> list_all (\<lambda>a. 0 \<le> a) s \<and> sorted (rev s)
        \<and> list_all (\<lambda>r. list_all (\<lambda>c.
              entry x r c = (\<Sum>j\<leftarrow>[0..<length s]. entry u r j * s ! j * entry v j c))
              [0..<ncols x]) [0..<nrows x]
        \<and> orthonormal (length s) (nrows u) (\<lambda>i r. entry u r i)
        \<and> orthonormal (length s) (ncols v) (\<lambda>i c. entry v i c))"

section \<open>Properties\<close>

subsection \<open>The examples are states of the program\<close>

lemma fresh_engine_constructed:
  "BasicSSA_init [1, 0, 0, 1] None ''nplapack'' ''pdseries'' = Inr fresh_engine"
  by (simp add: BasicSSA_init_def BaseSSA_init_def valid_types_def SVD_METHODS_MAP_def
      fresh_engine_def)



lemma grouped_engine_reached:
  "reconstruct (Some [(''trend'', IntV 0)]) False False decomposed_engine
     = (Inr (), grouped_engine)"
  by (simp add: reconstruct_def svd_any_none_def decomposed_engine_def fresh_engine_def
      is_valid_group_dict_def grouped_engine_def)

subsection \<open>Calls before the first decomposition\<close>

lemma n_components_undecomposed: "svd e = (None, None, None) \<Longrightarrow> n_components e = Inl TypeError"
  by (simp add: n_components_def)

lemma groups_undecomposed: "svd e = (None, None, None) \<Longrightarrow> groups e = Inl TypeError"
  by (simp add: groups_def n_components_def)

lemma getitem_undecomposed: "svd e = (None, None, None) \<Longrightarrow> getitem item e = Inl TypeError"
  by (simp add: getitem_def groups_undecomposed)

lemma reconstruct_undecomposed:
  "svd e = (None, None, None) \<Longrightarrow> reconstruct grps do_append overwrite e = (Inl BadCallError, e)"
  by (simp add: reconstruct_def svd_any_none_def)

text \<open>
  C3. On an engine that has not been decomposed, only \<^verbatim>\<open>reconstruct\<close> raises
  \<^verbatim>\<open>BadCallError\<close>. The component count, the group mapping and indexing by a group
  name raise the \<^verbatim>\<open>TypeError\<close> of \<^verbatim>\<open>len(None)\<close>, which is not a \<^verbatim>\<open>BadCallError\<close>:
  the engine just built from \<open>[1, 0, 0, 1]\<close> shows it.
\<close>

theorem undecomposed_queries_raise_TypeError:
  "BasicSSA_init [1, 0, 0, 1] None ''nplapack'' ''pdseries'' = Inr fresh_engine
   \<and> n_components fresh_engine = Inl TypeError
   \<and> groups fresh_engine = Inl TypeError
   \<and> getitem ''ssa_reconstruction'' fresh_engine = Inl TypeError
   \<and> fst (reconstruct (Some [(''trend'', IntV 0)]) False False fresh_engine) = Inl BadCallError"
proof -
  have none: "svd fresh_engine = (None, None, None)"
    by (simp add: fresh_engine_def)
  show ?thesis
    using fresh_engine_constructed n_components_undecomposed [OF none]
      groups_undecomposed [OF none] getitem_undecomposed [OF none]
      reconstruct_undecomposed [OF none]
    by simp
qed

subsection \<open>Defining groups\<close>

lemma merge_loop_first_name:
  "length name \<noteq> 2 \<Longrightarrow> \<exists>msg. merge_loop (name # names) ug = (Inl (ValueError msg), ug)"
  by (auto split: list.splits)

text \<open>
  So an appending call with \<open>overwrite\<close> fails, and changes nothing, whenever the
  first name the loop meets does not have two characters.
\<close>

lemma append_fails_on_first_name:
  assumes "\<not> svd_any_none e" and "usergroups e = Some oldgrp"
    and "is_valid_group_dict ((name, v) # g)" and "length name \<noteq> 2"
  shows "\<exists>msg. reconstruct (Some ((name, v) # g)) True True e = (Inl (ValueError msg), e)"
proof -
  from merge_loop_first_name [OF assms(4)] obtain msg where
    "merge_loop (name # map fst g) oldgrp = (Inl (ValueError msg), oldgrp)"
    by blast
  moreover have "e\<lparr>usergroups := Some oldgrp\<rparr> = e"
    using assms(2) by simp
  ultimately show ?thesis
    using assms(1-3) by (simp add: reconstruct_def Let_def)
qed

text \<open>
  C4. Appending to an existing mapping does not merge the incoming mapping. The loop
  unpacks each incoming name instead of a (name, indices) pair: on the engine with
  the group \<open>trend\<close>, appending \<open>{'season': [1]}\<close> raises \<^verbatim>\<open>ValueError\<close> and adds
  nothing; appending \<open>{'trend': 1}\<close> with \<open>overwrite\<close> raises too and \<open>trend\<close> keeps
  its old value; appending \<open>{'ab': 1}\<close> succeeds and stores the string \<open>'b'\<close> under the
  name \<open>'a'\<close>.
\<close>

theorem append_merge_fails:
  "reconstruct (Some [(''season'', ListV [1])]) True False grouped_engine
     = (Inl (ValueError ''too many values to unpack''), grouped_engine)
   \<and> reconstruct (Some [(''trend'', IntV 1)]) True True grouped_engine
     = (Inl (ValueError ''too many values to unpack''), grouped_engine)
   \<and> reconstruct (Some [(''ab'', IntV 1)]) True False grouped_engine
     = (Inr (), grouped_engine\<lparr>usergroups := Some [(''trend'', IntV 0), (''a'', StrV ''b'')]\<rparr>)"
  by (simp add: reconstruct_def svd_any_none_def grouped_engine_def decomposed_engine_def
      fresh_engine_def is_valid_group_dict_def)

text \<open>
  C5. When the engine already has a user-group mapping and an incoming name is in it,
  \<^verbatim>\<open>reconstruct(groups, append=True, overwrite=False)\<close> returns an error and the
  engine, with its user groups, is the one before the call. On a decomposed engine
  and for a valid mapping the error is the \<^verbatim>\<open>ValueError\<close> of the name conflict.
\<close>

theorem append_conflict_all_or_nothing:
  assumes "usergroups e = Some oldgrp"
    and "\<exists>name \<in> set (map fst g). name \<in> set (map fst oldgrp)"
  shows "snd (reconstruct (Some g) True False e) = e
     \<and> isl (fst (reconstruct (Some g) True False e))
     \<and> (\<not> svd_any_none e \<and> is_valid_group_dict g \<longrightarrow>
          reconstruct (Some g) True False e
            = (Inl (ValueError ''Group keys cannot be overwritten with overwrite parameters set to False.''), e))"
proof -
  from assms(2) have ne: "filter (\<lambda>name. name \<in> set (map fst oldgrp)) (map fst g) \<noteq> []"
    by (auto simp: filter_empty_conv)
  show ?thesis
    using assms(1) ne by (simp add: reconstruct_def Let_def)
qed

text \<open>
  Witness: the engine with the group \<open>trend\<close> and the incoming mapping
  \<open>{'trend': [1]}\<close>.
\<close>

theorem append_conflict_all_or_nothing_witness:
  "usergroups grouped_engine = Some [(''trend'', IntV 0)]
   \<and> (\<exists>name \<in> set (map fst [(''trend'', ListV [1])]). name \<in> set (map fst [(''trend'', IntV 0)]))
   \<and> reconstruct (Some [(''trend'', ListV [1])]) True False grouped_engine
        = (Inl (ValueError ''Group keys cannot be overwritten with overwrite parameters set to False.''),
           grouped_engine)"
proof -
  have ug: "usergroups grouped_engine = Some [(''trend'', IntV 0)]"
    by (simp add: grouped_engine_def)
  have common: "\<exists>name \<in> set (map fst [(''trend'', ListV [1])]). name \<in> set (map fst [(''trend'', IntV 0)])"
    by simp
  have dec: "\<not> svd_any_none grouped_engine"
    by (simp add: svd_any_none_def grouped_engine_def decomposed_engine_def)
  have valid: "is_valid_group_dict [(''trend'', ListV [1])]"
    by (simp add: is_valid_group_dict_def)
  from append_conflict_all_or_nothing [OF ug common] dec valid ug common show ?thesis
    by blast
qed

subsection \<open>The resolved group mapping\<close>

lemma flat_indices: "set (nested2d_to_flatlist (map snd ug)) = (\<Union>(name, v) \<in> set ug. set (gval_indices v))"
  by (auto simp: nested2d_to_flatlist_def)

lemma complement_indices_filter:
  "filter (\<lambda>i. i \<notin> set (nested2d_to_flatlist (map snd ug))) (py_range n) = complement_indices n ug"
  unfolding complement_indices_def
  by (rule filter_cong) (auto simp: flat_indices list_all_iff)

lemma updates_as_map_of: "map_of (AList.updates ks vs []) = map_of (rev (zip ks vs))"
  by (simp add: AList.updates_conv' map_upds_def)

lemma zip_user_entries: "zip (map fst ug) (map (Some \<circ> snd) ug) = map (\<lambda>p. (fst p, Some (snd p))) ug"
  by (induction ug) auto

lemma groups_with_usergroups:
  assumes "svd e = (u, Some s, v)" and "usergroups e = Some ug" and "ug \<noteq> []"
  shows "\<exists>g. groups e = Inr g \<and> map_of g = map_of (rev (resolved_pairs (length s) ug))"
proof -
  let ?names = "take 2 default_groups @ map fst ug @ [last default_groups]"
  let ?vals = "[None, Some (ListV (py_range (length s)))] @ map Some (map snd ug)
                 @ [Some (ListV (complement_indices (length s) ug))]"
  from assms(3) obtain p ps where "ug = p # ps"
    by (cases ug) auto
  with assms(1,2) have g: "groups e = Inr (AList.updates ?names ?vals [])"
    by (simp add: groups_def n_components_def complement_indices_filter Let_def
        del: AList.updates_key_simp AList.updates_simps)
  have z: "zip ?names ?vals = resolved_pairs (length s) ug"
    by (simp add: default_groups_def resolved_pairs_def zip_user_entries)
  have "map_of (AList.updates ?names ?vals []) = map_of (rev (resolved_pairs (length s) ug))"
    by (simp only: updates_as_map_of z)
  with g show ?thesis
    by blast
qed

lemma residual_lookup:
  "map_of (rev (resolved_pairs n ug)) ''ssa_residuals'' = Some (Some (ListV (complement_indices n ug)))"
  by (simp add: resolved_pairs_def)



lemma py_range_set: "set (py_range n) = {i. 0 \<le> i \<and> i < int n}"
proof -
  have "i \<in> int ` {0..<n}" if "0 \<le> i" "i < int n" for i
    using that by (intro image_eqI [where x = "nat i"]) auto
  then show ?thesis
    by (auto simp: py_range_def)
qed

lemma complement_indices_set:
  "set (complement_indices n ug) = {i. 0 \<le> i \<and> i < int n} - (\<Union>(name, v) \<in> set ug. set (gval_indices v))"
  by (auto simp: complement_indices_def py_range_set list_all_iff)

lemma reconstruct_keeps_svd: "svd (snd (reconstruct grps do_append overwrite e)) = svd e"
  by (auto simp: reconstruct_def Let_def split: option.splits prod.splits)

lemma reconstruct_success_decomposed:
  "fst (reconstruct grps do_append overwrite e) = Inr () \<Longrightarrow> \<not> svd_any_none e"
  by (auto simp: reconstruct_def split: if_splits)






text \<open>
  C7. Let \<open>e\<close> hold a decomposition with \<open>R\<close> singular values, and let \<open>e'\<close> be \<open>e\<close>
  or the engine after any successful \<^verbatim>\<open>reconstruct\<close> call on \<open>e\<close>. If the user-group
  mapping of \<open>e'\<close> is not empty, the entry \<open>ssa_residuals\<close> of its group mapping is
  the list of the indices of \<open>{0, \<dots>, R - 1}\<close> that are in no user group.
\<close>

theorem residual_law:
  assumes "svd e = (Some u, Some s, Some v)"
    and "e' = e \<or> (\<exists>grps do_append overwrite. reconstruct grps do_append overwrite e = (Inr (), e'))"
    and "usergroups e' = Some ug" and "ug \<noteq> []" and "is_valid_group_dict ug"
  shows "\<exists>g r. groups e' = Inr g \<and> map_of g ''ssa_residuals'' = Some (Some (ListV r))
           \<and> r = complement_indices (length s) ug
           \<and> set r = {i. 0 \<le> i \<and> i < int (length s)} - (\<Union>(name, v) \<in> set ug. set (gval_indices v))"
proof -
  have "svd e' = svd e"
    using assms(2) reconstruct_keeps_svd by (metis snd_conv)
  with assms(1) have sv: "svd e' = (Some u, Some s, Some v)"
    by simp
  from groups_with_usergroups [OF sv assms(3,4)] obtain g where
    g: "groups e' = Inr g" "map_of g = map_of (rev (resolved_pairs (length s) ug))"
    by blast
  from g(2) have "map_of g ''ssa_residuals'' = Some (Some (ListV (complement_indices (length s) ug)))"
    by (simp only: residual_lookup)
  with g(1) complement_indices_set [of "length s" ug] show ?thesis
    by blast
qed

text \<open>
  Witness: the decomposed example engine and the call that defines \<open>trend = 0\<close>; the
  residual is the index \<open>1\<close>.
\<close>

theorem residual_law_witness:
  "svd decomposed_engine = (Some (fst example_svd), Some [1, 1], Some (snd (snd example_svd)))
   \<and> reconstruct (Some [(''trend'', IntV 0)]) False False decomposed_engine = (Inr (), grouped_engine)
   \<and> usergroups grouped_engine = Some [(''trend'', IntV 0)]
   \<and> is_valid_group_dict [(''trend'', IntV 0)]
   \<and> (\<exists>g. groups grouped_engine = Inr g \<and> map_of g ''ssa_residuals'' = Some (Some (ListV [1])))"
proof -
  have sv: "svd decomposed_engine = (Some (fst example_svd), Some [1, 1], Some (snd (snd example_svd)))"
    by (simp add: decomposed_engine_def example_svd_def)
  have call: "grouped_engine = decomposed_engine
      \<or> (\<exists>grps do_append overwrite. reconstruct grps do_append overwrite decomposed_engine = (Inr (), grouped_engine))"
    using grouped_engine_reached by blast
  have ug: "usergroups grouped_engine = Some [(''trend'', IntV 0)]"
    by (simp add: grouped_engine_def)
  have r: "complement_indices (length [1::real, 1]) [(''trend'', IntV 0)] = [1]"
    by code_simp
  have valid: "is_valid_group_dict [(''trend'', IntV 0)]"
    by (simp add: is_valid_group_dict_def)
  have "[(''trend'', IntV 0)] \<noteq> ([] :: groupdict)"
    by simp
  from residual_law [OF sv call ug this valid] obtain g where
    "groups grouped_engine = Inr g"
    "map_of g ''ssa_residuals''
       = Some (Some (ListV (complement_indices (length [1::real, 1]) [(''trend'', IntV 0)])))"
    by blast
  then have "\<exists>g. groups grouped_engine = Inr g \<and> map_of g ''ssa_residuals'' = Some (Some (ListV [1]))"
    by (simp only: r) blast
  with sv grouped_engine_reached ug valid show ?thesis
    by blast
qed

subsection \<open>Construction\<close>

text \<open>
  C8, as stated, fails: the constructors do not check the window. \<^verbatim>\<open>BasicSSA\<close>
  accepts the window \<open>7\<close> for a sequence of length \<open>3\<close> (and sets \<open>_k = - 3\<close>), and
  \<^verbatim>\<open>ToeplitzSSA\<close> accepts the window \<open>0\<close>.
\<close>

theorem window_out_of_range_accepted:
  "BasicSSA_init [1, 2, 3] (Some 7) ''nplapack'' ''pdseries''
     = Inr \<lparr>cls = BasicSSA, ts = [1, 2, 3], usetype = ''pdseries'', n_ts = 3, window = 7,
            traj_k = Some (- 3), usergroups = None, svd = (None, None, None),
            decompose_method = Nplapack\<rparr>
   \<and> ToeplitzSSA_init [1, 2, 3] (Some 0) ''nplapack'' ''pdseries''
     = Inr \<lparr>cls = ToeplitzSSA, ts = [1, 2, 3], usetype = ''pdseries'', n_ts = 3, window = 0,
            traj_k = None, usergroups = None, svd = (None, None, None),
            decompose_method = Nplapack\<rparr>"
  by (simp add: BasicSSA_init_def ToeplitzSSA_init_def BaseSSA_init_def valid_types_def
      SVD_METHODS_MAP_def)

text \<open>
  C8, amended. For every sequence and every explicit integer window, inside
  \<open>[1, N - 1]\<close> or not, both constructors succeed when the use type and the
  decomposition method are known names; the window is stored as given, and
  \<^verbatim>\<open>BasicSSA\<close> stores \<open>_k = N - window + 1\<close>.
\<close>

theorem construction_accepts_any_window:
  assumes "utype \<in> set valid_types" and "map_of SVD_METHODS_MAP svdm = Some meth"
  shows "BasicSSA_init xs (Some w) svdm utype
           = Inr \<lparr>cls = BasicSSA, ts = xs, usetype = utype, n_ts = length xs, window = w,
                  traj_k = Some (int (length xs) - w + 1), usergroups = None,
                  svd = (None, None, None), decompose_method = meth\<rparr>
       \<and> ToeplitzSSA_init xs (Some w) svdm utype
           = Inr \<lparr>cls = ToeplitzSSA, ts = xs, usetype = utype, n_ts = length xs, window = w,
                  traj_k = None, usergroups = None,
                  svd = (None, None, None), decompose_method = meth\<rparr>"
  using assms by (simp add: BasicSSA_init_def ToeplitzSSA_init_def BaseSSA_init_def)

text \<open>
  Witness: the sequence \<open>[1, 2, 3]\<close> with the window \<open>- 1\<close> for \<^verbatim>\<open>BasicSSA\<close> and \<open>2\<close>
  for \<^verbatim>\<open>ToeplitzSSA\<close>.
\<close>

theorem construction_accepts_any_window_witness:
  "''nparray'' \<in> set valid_types \<and> map_of SVD_METHODS_MAP ''splapack'' = Some Splapack
   \<and> BasicSSA_init [1, 2, 3] (Some (- 1)) ''splapack'' ''nparray''
        = Inr \<lparr>cls = BasicSSA, ts = [1, 2, 3], usetype = ''nparray'', n_ts = 3, window = - 1,
               traj_k = Some 5, usergroups = None,
               svd = (None, None, None), decompose_method = Splapack\<rparr>
   \<and> ToeplitzSSA_init [1, 2, 3] (Some 2) ''splapack'' ''nparray''
        = Inr \<lparr>cls = ToeplitzSSA, ts = [1, 2, 3], usetype = ''nparray'', n_ts = 3, window = 2,
               traj_k = None, usergroups = None,
               svd = (None, None, None), decompose_method = Splapack\<rparr>"
proof -
  have u: "''nparray'' \<in> set valid_types"
    by (simp add: valid_types_def)
  have m: "map_of SVD_METHODS_MAP ''splapack'' = Some Splapack"
    by (simp add: SVD_METHODS_MAP_def)
  from construction_accepts_any_window [OF u m, of "[1, 2, 3]" "- 1"]
    construction_accepts_any_window [OF u m, of "[1, 2, 3]" 2] u m
  show ?thesis
    by simp
qed



subsection \<open>Decomposition\<close>

lemma wrapper_factorizes_embedding:
  "embedseries e = Inr x \<Longrightarrow>
   nplapack_wrapper lib fm e
     = (case nplapack lib x fm of Inl err \<Rightarrow> Inl err | Inr t \<Rightarrow> Inr (store_svd t e))"
  by (simp add: nplapack_wrapper_def split: sum.splits)

lemma lapack_wrappers_store_routine_output:
  assumes "embedseries e = Inr x"
  shows "nplapack lib x fm = Inr (u, s, v) \<Longrightarrow>
         nplapack_wrapper lib fm e = Inr ((u, s, v), e\<lparr>svd := (Some u, Some s, Some v)\<rparr>)"
    and "splapack lib x fm = Inr (u, s, v) \<Longrightarrow>
         splapack_wrapper lib fm e = Inr ((u, s, v), e\<lparr>svd := (Some u, Some s, Some v)\<rparr>)"
  using assms by (simp_all add: nplapack_wrapper_def splapack_wrapper_def store_svd_def)

text \<open>
  C9. The matrix that a \<^verbatim>\<open>ToeplitzSSA\<close> engine hands to the factorization routine is
  the one of \<^verbatim>\<open>_embedseries\<close>, not the lag-covariance matrix of \<^verbatim>\<open>_svdmatrix\<close>: for
  \<open>[1, 2, 3]\<close> with the window \<open>2\<close>, whatever the library, the routine is called on the
  zero-padded \<open>3 \<times> 2\<close> trajectory matrix, while \<^verbatim>\<open>_svdmatrix\<close> is the \<open>2 \<times> 2\<close> matrix
  with \<open>14/3\<close> on the diagonal and \<open>4\<close> off it.
\<close>

theorem toeplitz_factorizes_trajectory_matrix:
  "ToeplitzSSA_init [1, 2, 3] (Some 2) ''nplapack'' ''pdseries'' = Inr toeplitz_engine
   \<and> decompose lib None toeplitz_engine
       = (case nplapack lib \<lparr>nrows = 3, ncols = 2, rows = [[1, 2], [2, 3], [3, 0]]\<rparr> True of
            Inl err \<Rightarrow> Inl err
          | Inr t \<Rightarrow> Inr (store_svd t toeplitz_engine))
   \<and> svdmatrix toeplitz_engine
       = Inr \<lparr>nrows = 2, ncols = 2, rows = [[Some (14 / 3), Some 4], [Some 4, Some (14 / 3)]]\<rparr>"
proof -
  have c: "ToeplitzSSA_init [1, 2, 3] (Some 2) ''nplapack'' ''pdseries'' = Inr toeplitz_engine"
    by (simp add: ToeplitzSSA_init_def BaseSSA_init_def valid_types_def SVD_METHODS_MAP_def
        toeplitz_engine_def)
  have x: "embedseries toeplitz_engine = Inr \<lparr>nrows = 3, ncols = 2, rows = [[1, 2], [2, 3], [3, 0]]\<rparr>"
    by code_simp
  have m: "decompose_method toeplitz_engine = Nplapack"
    by (simp add: toeplitz_engine_def)
  have d: "decompose lib None toeplitz_engine
       = (case nplapack lib \<lparr>nrows = 3, ncols = 2, rows = [[1, 2], [2, 3], [3, 0]]\<rparr> True of
            Inl err \<Rightarrow> Inl err
          | Inr t \<Rightarrow> Inr (store_svd t toeplitz_engine))"
    by (simp add: decompose_def m wrapper_factorizes_embedding [OF x])
  have s: "svdmatrix toeplitz_engine
       = Inr \<lparr>nrows = 2, ncols = 2, rows = [[Some (14 / 3), Some 4], [Some 4, Some (14 / 3)]]\<rparr>"
    by code_simp
  from c d s show ?thesis
    by simp
qed

text \<open>
  C2. The LAPACK wrappers store what the routine returns. For \<open>[3, 4]\<close> and a routine
  returning \<open>lapack_svd\<close>, a singular value decomposition of the trajectory matrix,
  the stored left vector is \<open>(- 1)\<close>: its entry of largest absolute value is negative.
\<close>

theorem lapack_output_stored_unflipped:
  "BasicSSA_init [3, 4] None ''nplapack'' ''pdseries'' = Inr pair_engine
   \<and> embedseries pair_engine = Inr \<lparr>nrows = 1, ncols = 2, rows = [[3, 4]]\<rparr>
   \<and> decompose lapack_lib None pair_engine
       = Inr (lapack_svd, pair_engine\<lparr>svd := (Some (fst lapack_svd), Some (fst (snd lapack_svd)),
                                                Some (snd (snd lapack_svd)))\<rparr>)
   \<and> is_svd \<lparr>nrows = 1, ncols = 2, rows = [[3, 4]]\<rparr> lapack_svd
   \<and> column (fst lapack_svd) 0 = [- 1]
   \<and> \<not> sign_canonical (fst lapack_svd)"
proof -
  have sv: "is_svd \<lparr>nrows = 1, ncols = 2, rows = [[3, 4]]\<rparr> lapack_svd"
    by (simp add: is_svd_def lapack_svd_def well_formed_def orthonormal_def entry_def
        upt_conv_Cons eval_nat_numeral)
  have c: "BasicSSA_init [3, 4] None ''nplapack'' ''pdseries'' = Inr pair_engine"
    by (simp add: BasicSSA_init_def BaseSSA_init_def valid_types_def SVD_METHODS_MAP_def
        pair_engine_def)
  have x: "embedseries pair_engine = Inr \<lparr>nrows = 1, ncols = 2, rows = [[3, 4]]\<rparr>"
    by code_simp
  have m: "decompose_method pair_engine = Nplapack"
    by (simp add: pair_engine_def)
  have d: "decompose lapack_lib None pair_engine
       = Inr (lapack_svd, pair_engine\<lparr>svd := (Some (fst lapack_svd), Some (fst (snd lapack_svd)),
                                                Some (snd (snd lapack_svd)))\<rparr>)"
    by (simp add: decompose_def m wrapper_factorizes_embedding [OF x] lapack_lib_def
        store_svd_def lapack_svd_def)
  have col: "column (fst lapack_svd) 0 = [- 1]"
    by (simp add: column_def lapack_svd_def)
  have "ncols (fst lapack_svd) = 1"
    by (simp add: lapack_svd_def)
  then have "\<not> sign_canonical (fst lapack_svd)"
    by (simp add: sign_canonical_def col)
  with c x d sv col show ?thesis
    by simp
qed


text \<open>
  The sign rule does hold for what the ARPACK wrapper stores, which passes through
  \<open>svd_flip\<close>.
\<close>

lemma dominant_scaled:
  "\<bar>c\<bar> = 1 \<Longrightarrow> dominant (map (\<lambda>a. a * c) xs) = dominant xs * c"
  by (induction xs) (auto simp: abs_mult)

lemma dominant_zeroed: "dominant (map (\<lambda>a. 0) xs) = 0"
  by (induction xs) auto

lemma dominant_flipped: "0 \<le> dominant (map (\<lambda>a. a * sgn (dominant xs)) xs)"
proof (cases "dominant xs = 0")
  case True
  then show ?thesis by (simp add: dominant_zeroed)
next
  case False
  then have "\<bar>sgn (dominant xs)\<bar> = 1"
    by (simp add: abs_sgn_eq)
  then have "dominant (map (\<lambda>a. a * sgn (dominant xs)) xs) = dominant xs * sgn (dominant xs)"
    by (rule dominant_scaled)
  also have "\<dots> = \<bar>dominant xs\<bar>"
    by (simp add: abs_sgn mult.commute)
  finally show ?thesis by simp
qed

lemma svd_flip_sign_canonical:
  assumes "well_formed u" and "svd_flip u v = Inr (u', v')"
  shows "sign_canonical u'"
proof -
  let ?signs = "map (\<lambda>j. sgn (dominant (column u j))) [0..<ncols u]"
  from assms(2) have u': "u' = u\<lparr>rows := map (\<lambda>row. map2 (*) row ?signs) (rows u)\<rparr>"
    by (auto simp: svd_flip_def Let_def split: if_splits)
  have "column u' j = map (\<lambda>a. a * sgn (dominant (column u j))) (column u j)" if "j < ncols u" for j
  proof -
    have "map2 (*) row ?signs ! j = row ! j * sgn (dominant (column u j))"
      if "row \<in> set (rows u)" for row
    proof -
      from assms(1) that have "length row = ncols u"
        by (auto simp: well_formed_def list_all_iff)
      with \<open>j < ncols u\<close> show ?thesis by simp
    qed
    then show ?thesis
      by (simp add: column_def u' comp_def)
  qed
  then show ?thesis
    by (simp add: sign_canonical_def list_all_iff u' dominant_flipped)
qed

lemma sparpack_wrapper_sign_canonical:
  assumes "sparpack_wrapper lib k e = Inr ((u', s', v'), e')"
    and "\<And>x r u s v. sparpack lib x r = Inr (u, s, v) \<Longrightarrow> well_formed u"
  shows "sign_canonical u'"
proof -
  from assms(1) obtain x u s v v'' where
    r: "sparpack lib x (default_rank x k) = Inr (u, s, v)"
    and f: "svd_flip (reverse_columns u) (reverse_rows v) = Inr (u', v'')"
    by (auto simp: sparpack_wrapper_def store_svd_def split: sum.splits prod.splits)
  from assms(2) [OF r] have "well_formed (reverse_columns u)"
    by (simp add: well_formed_def reverse_columns_def list_all_iff)
  from svd_flip_sign_canonical [OF this f] show ?thesis .
qed


text \<open>
  What \<^verbatim>\<open>_svdmatrix\<close> of a \<^verbatim>\<open>ToeplitzSSA\<close> engine computes is the lag-covariance
  matrix of the claim: for a window \<open>L\<close> in \<open>[1, N]\<close> it is an \<open>L \<times> L\<close> matrix whose
  entry \<open>(i, j)\<close> is the sum of \<open>ts[t] \<cdot> ts[t + d]\<close> over \<open>t < N - d\<close>, divided by
  \<open>N - d\<close>, with \<open>d = |i - j|\<close>.
\<close>

lemma lagged_sum_nth:
  assumes "d \<le> length x"
  shows "lagged_sum x d = (\<Sum>t = 0..<length x - d. x ! t * x ! (t + d))"
proof -
  have "lagged_sum x d = (\<Sum>t = 0..<length x - d. map2 (*) (take (length x - d) x) (drop d x) ! t)"
    unfolding lagged_sum_def by (simp add: sum_list_sum_nth)
  also have "\<dots> = (\<Sum>t = 0..<length x - d. x ! t * x ! (t + d))"
    using assms by (intro sum.cong refl) (simp add: add.commute)
  finally show ?thesis .
qed

lemma toeplitz_embedding:
  assumes "n_ts e = length (ts e)" and "1 \<le> window e" and "window e \<le> int (length (ts e))"
  shows "\<exists>x. ToeplitzSSA_embedseries e = Inr x \<and> ncols x = nat (window e) \<and> column x 0 = ts e"
proof -
  define L where "L = nat (window e)"
  define N where "N = length (ts e)"
  define cols where "cols = map (\<lambda>i. drop i (ts e) @ replicate (N - length (drop i (ts e))) 0) [0..<L]"
  have L: "0 < L" "L \<le> N"
    using assms(2,3) by (simp_all add: L_def N_def)
  have ok: "\<not> list_ex (\<lambda>i. N < i \<and> i < 2 * N) [0..<L]"
    using L by (auto simp: list_ex_iff)
  have emb: "ToeplitzSSA_embedseries e
               = Inr \<lparr>nrows = N, ncols = L, rows = map (\<lambda>r. map (\<lambda>c. c ! r) cols) [0..<N]\<rparr>"
    using assms(1,2) ok
    by (simp add: ToeplitzSSA_embedseries_def Let_def L_def [symmetric] N_def [symmetric] cols_def)
  have "cols ! 0 = ts e"
    using L by (simp add: cols_def N_def)
  then have "map (\<lambda>c. c ! r) cols ! 0 = ts e ! r" for r
    using L by (simp add: cols_def)
  then have "column \<lparr>nrows = N, ncols = L, rows = map (\<lambda>r. map (\<lambda>c. c ! r) cols) [0..<N]\<rparr> 0
               = map ((!) (ts e)) [0..<length (ts e)]"
    by (simp add: column_def N_def comp_def)
  then have "column \<lparr>nrows = N, ncols = L, rows = map (\<lambda>r. map (\<lambda>c. c ! r) cols) [0..<N]\<rparr> 0 = ts e"
    by (simp only: map_nth)
  with emb show ?thesis
    by (simp add: L_def)
qed

lemma covariance_matrix_entries:
  assumes "cls e = ToeplitzSSA" and "n_ts e = length (ts e)"
    and "1 \<le> window e" and "window e \<le> int (length (ts e))"
    and "i < nat (window e)" and "j < nat (window e)"
  shows "\<exists>C. svdmatrix e = Inr C \<and> nrows C = nat (window e) \<and> ncols C = nat (window e)
           \<and> entry C i j
               = Some ((\<Sum>t = 0..<length (ts e) - nat \<bar>int i - int j\<bar>.
                          ts e ! t * ts e ! (t + nat \<bar>int i - int j\<bar>))
                       / real (length (ts e) - nat \<bar>int i - int j\<bar>))"
proof -
  let ?d = "nat \<bar>int i - int j\<bar>"
  let ?cell = "\<lambda>i j. if i \<noteq> j
          then (let dt = nat \<bar>int i - int j\<bar> in
                fdiv (Some (lagged_sum (ts e) dt)) (Some (real_of_int (int (length (ts e)) - int dt))))
          else fdiv (Some (sum_list (map2 (*) (ts e) (ts e)))) (Some (real (length (ts e))))"
  from toeplitz_embedding [OF assms(2-4)] obtain x where
    x: "ToeplitzSSA_embedseries e = Inr x" "ncols x = nat (window e)" "column x 0 = ts e"
    by blast
  have d: "?d < length (ts e)" "i = j \<longleftrightarrow> ?d = 0"
    using assms(4-6) by auto
  have diag: "sum_list (map2 (*) (ts e) (ts e)) = (\<Sum>t = 0..<length (ts e). ts e ! t * ts e ! t)"
    using lagged_sum_nth [of 0 "ts e"] by (simp add: lagged_sum_def)
  have cell: "?cell i j
        = Some ((\<Sum>t = 0..<length (ts e) - ?d. ts e ! t * ts e ! (t + ?d)) / real (length (ts e) - ?d))"
  proof (cases "i = j")
    case True
    then have "?d = 0" by simp
    moreover have "length (ts e) \<noteq> 0" using d(1) by auto
    ultimately show ?thesis
      using True by (simp add: fdiv_def diag)
  next
    case False
    have r: "real_of_int (int (length (ts e)) - int ?d) = real (length (ts e) - ?d)"
      using d(1) by (simp add: of_nat_diff)
    have nz: "real (length (ts e) - ?d) \<noteq> 0"
      using d(1) by simp
    have "lagged_sum (ts e) ?d = (\<Sum>t = 0..<length (ts e) - ?d. ts e ! t * ts e ! (t + ?d))"
      using d(1) by (intro lagged_sum_nth) simp
    then have "?cell i j = fdiv (Some (\<Sum>t = 0..<length (ts e) - ?d. ts e ! t * ts e ! (t + ?d)))
                              (Some (real (length (ts e) - ?d)))"
      using False by (simp only: r Let_def if_True simp_thms)
    also have "\<dots> = Some ((\<Sum>t = 0..<length (ts e) - ?d. ts e ! t * ts e ! (t + ?d))
                              / real (length (ts e) - ?d))"
      using nz by (simp only: fdiv_def prod.case option.case if_False)
    finally show ?thesis .
  qed
  define C where "C = \<lparr>nrows = nat (window e), ncols = nat (window e),
             rows = map (\<lambda>i. map (\<lambda>j. ?cell i j) [0..<nat (window e)]) [0..<nat (window e)]\<rparr>"
  have "svdmatrix e = covariance_matrix e x"
    using assms(1) x(1) by (simp add: svdmatrix_def)
  then have 1: "svdmatrix e = Inr C"
    using assms(3,5) x(2,3) by (simp add: covariance_matrix_def Let_def C_def)
  have 2: "nrows C = nat (window e)" and 3: "ncols C = nat (window e)"
    by (simp_all add: C_def)
  have "entry C i j = ?cell i j"
    using assms(5,6) by (simp add: entry_def C_def)
  then have 4: "entry C i j
      = Some ((\<Sum>t = 0..<length (ts e) - ?d. ts e ! t * ts e ! (t + ?d)) / real (length (ts e) - ?d))"
    by (simp only: cell)
  show ?thesis
    by (intro exI [of _ C] conjI) (fact 1 2 3 4)+
qed

subsection \<open>Reconstruction of all components\<close>

text \<open>Evaluation of a reconstruction on a concrete engine unfolds these definitions.\<close>

lemmas evaluation_defs =
  getitem_def getseries_def dict_get_def groups_def n_components_def default_groups_def
  py_range_def nested2d_to_flatlist_def reconstruct_group_def BasicSSA_reconstruct_group_def
  BasicSSA_embedseries_def py_slice_def BasicSSA_component_def py_index_def column_def
  fsqrt_def fdiv_def fmul_def fadd_def madd_def zeros_def BasicSSA_hankelmatrix_to_ts_def
  py_range2_def diagonal_def fmean_def fsum_def Let_def upt_conv_Cons eval_nat_numeral

lemma zero_engine_reached:
  "\<exists>e0 e1. BasicSSA_init [0, 0] None ''nplapack'' ''pdseries'' = Inr e0
      \<and> decompose zero_lib None e0 = Inr (zero_svd, e1)
      \<and> reconstruct (Some [(''trend'', IntV 0)]) False False e1 = (Inr (), zero_engine)"
  by (simp add: BasicSSA_init_def BaseSSA_init_def valid_types_def SVD_METHODS_MAP_def
      decompose_def nplapack_wrapper_def embedseries_def BasicSSA_embedseries_def py_slice_def
      zero_lib_def zero_svd_def store_svd_def reconstruct_def svd_any_none_def
      is_valid_group_dict_def zero_engine_def upt_conv_Cons eval_nat_numeral)


text \<open>
  What holds of the reconstruction: for a window in \<open>[1, N]\<close>, a stored triple that
  is a singular value decomposition of the trajectory matrix, and singular values
  that are all positive, the group of all components reconstructs the sequence; and
  indexing by \<open>ssa_reconstruction\<close> returns it once a user-group mapping exists. The
  steps: the entries of the trajectory matrix; the matrix of one component; the sum
  over the components, which is the projection on the left vectors; the averaging
  of the diagonals.
\<close>

lemma tabulate_nth: "r < m \<Longrightarrow> c < n \<Longrightarrow> tabulate m n g ! r ! c = g r c"
  by (simp add: tabulate_def)

lemma tabulate_length: "length (tabulate m n g) = m"
  by (simp add: tabulate_def)

lemma fsum_constant:
  "fold (\<lambda>a acc. fadd acc a) (replicate k (Some c)) (Some z) = Some (z + real k * c)"
  by (induction k arbitrary: z) (simp_all add: fadd_def algebra_simps)

lemma fmean_constant:
  assumes "xs \<noteq> []" and "\<forall>a \<in> set xs. a = Some c"
  shows "fmean xs = Some c"
proof -
  from assms(2) have "xs = replicate (length xs) (Some c)"
    by (simp add: replicate_length_same)
  then have "fsum xs = Some (real (length xs) * c)"
    using fsum_constant [of "length xs" c 0] by (simp add: fsum_def)
  with assms(1) show ?thesis
    by (simp add: fmean_def fdiv_def)
qed

lemma hankel_diagonal:
  assumes "0 < m" and "0 < n" and "t < m + n - 1"
    and g: "\<And>r c. r < m \<Longrightarrow> c < n \<Longrightarrow> g r c = Some (xs ! (r + c))"
  shows "fmean (diagonal (rev (tabulate m n g)) m n (1 - int m + int t)) = Some (xs ! t)"
proof (cases "m \<le> t + 1")
  case True
  define d where "d = t + 1 - m"
  have i: "0 \<le> 1 - int m + int t" "nat (1 - int m + int t) = d"
    using True by (simp_all add: d_def)
  have dn: "d < n"
    using assms(1,3) True by (simp add: d_def)
  have elem: "rev (tabulate m n g) ! j ! (j + d) = Some (xs ! t)" if "j < min m (n - d)" for j
  proof -
    from that have j: "j < m" "j + d < n" by auto
    then have "rev (tabulate m n g) ! j = tabulate m n g ! (m - Suc j)"
      by (simp add: rev_nth tabulate_length)
    moreover have "m - Suc j < m" using j by simp
    ultimately have "rev (tabulate m n g) ! j ! (j + d) = g (m - Suc j) (j + d)"
      using j by (simp add: tabulate_nth)
    also have "\<dots> = Some (xs ! (m - Suc j + (j + d)))"
      using j by (intro g) simp_all
    also have "m - Suc j + (j + d) = t"
      using j True by (simp add: d_def)
    finally show ?thesis .
  qed
  have "diagonal (rev (tabulate m n g)) m n (1 - int m + int t)
          = map (\<lambda>j. rev (tabulate m n g) ! j ! (j + d)) [0..<min m (n - d)]"
    using i by (simp add: diagonal_def)
  moreover have "0 < min m (n - d)"
    using assms(1) dn by simp
  ultimately show ?thesis
    using elem by (intro fmean_constant) auto
next
  case False
  define d where "d = m - 1 - t"
  have i: "\<not> 0 \<le> 1 - int m + int t" "nat (- (1 - int m + int t)) = d"
    using False by (simp_all add: d_def)
  have dm: "d < m"
    using assms(1) False by (simp add: d_def)
  have elem: "rev (tabulate m n g) ! (j + d) ! j = Some (xs ! t)" if "j < min (m - d) n" for j
  proof -
    from that have j: "j + d < m" "j < n" by auto
    then have "rev (tabulate m n g) ! (j + d) = tabulate m n g ! (m - Suc (j + d))"
      by (simp add: rev_nth tabulate_length)
    moreover have "m - Suc (j + d) < m" using j by simp
    ultimately have "rev (tabulate m n g) ! (j + d) ! j = g (m - Suc (j + d)) j"
      using j by (simp add: tabulate_nth)
    also have "\<dots> = Some (xs ! (m - Suc (j + d) + j))"
      using j by (intro g) simp_all
    also have "m - Suc (j + d) + j = t"
      using j False by (simp add: d_def)
    finally show ?thesis .
  qed
  have "diagonal (rev (tabulate m n g)) m n (1 - int m + int t)
          = map (\<lambda>j. rev (tabulate m n g) ! (j + d) ! j) [0..<min (m - d) n]"
    using i by (simp add: diagonal_def)
  moreover have "0 < min (m - d) n"
    using assms(2) dm by simp
  ultimately show ?thesis
    using elem by (intro fmean_constant) auto
qed

lemma hankel_of_trajectory:
  assumes "0 < m" and "0 < n" and "length xs = m + n - 1"
    and g: "\<And>r c. r < m \<Longrightarrow> c < n \<Longrightarrow> g r c = Some (xs ! (r + c))"
  shows "BasicSSA_hankelmatrix_to_ts \<lparr>nrows = m, ncols = n, rows = tabulate m n g\<rparr> = map Some xs"
proof -
  have len: "nat (int n - (1 - int m)) = length xs"
    using assms(1,3) by simp
  have "BasicSSA_hankelmatrix_to_ts \<lparr>nrows = m, ncols = n, rows = tabulate m n g\<rparr>
          = map (\<lambda>t. fmean (diagonal (rev (tabulate m n g)) m n (1 - int m + int t))) [0..<length xs]"
    by (simp add: BasicSSA_hankelmatrix_to_ts_def py_range2_def len comp_def)
  also have "\<dots> = map (\<lambda>t. Some (xs ! t)) [0..<length xs]"
    using assms by (intro map_cong refl hankel_diagonal) simp_all
  also have "\<dots> = map Some (map ((!) xs) [0..<length xs])"
    by (simp add: comp_def del: map_nth)
  also have "\<dots> = map Some xs"
    by (simp only: map_nth)
  finally show ?thesis .
qed

lemma is_svd_example: "is_svd \<lparr>nrows = 2, ncols = 3, rows = [[1, 0, 0], [0, 0, 1]]\<rparr> example_svd"
  by (simp add: is_svd_def example_svd_def well_formed_def orthonormal_def entry_def
      upt_conv_Cons eval_nat_numeral)

lemma embedding_entries:
  assumes "n_ts e = length (ts e)" and "traj_k e = Some (int (n_ts e) - window e + 1)"
    and "0 \<le> window e" and "window e \<le> int (length (ts e))"
  shows "BasicSSA_embedseries e
           = Inr \<lparr>nrows = nat (window e), ncols = length (ts e) - nat (window e) + 1,
                  rows = tabulate (nat (window e)) (length (ts e) - nat (window e) + 1)
                           (\<lambda>r c. ts e ! (r + c))\<rparr>"
proof -
  define m where "m = nat (window e)"
  define n where "n = length (ts e) - m + 1"
  have k: "nat (int (n_ts e) - window e + 1) = n" "\<not> int (n_ts e) - window e + 1 < 0"
    using assms by (simp_all add: n_def m_def)
  have len: "length (py_slice (ts e) i (i + m)) = m" if "i < n" for i
    using that assms(3,4) by (simp add: py_slice_def n_def m_def)
  have nth: "py_slice (ts e) i (i + m) ! r = ts e ! (r + i)" if "i < n" "r < m" for i r
    using that assms(3,4) by (simp add: py_slice_def n_def m_def add.commute)
  have "map (\<lambda>r. map (\<lambda>c. c ! r) (map (\<lambda>i. py_slice (ts e) i (i + m)) [0..<n])) [0..<m]
          = tabulate m n (\<lambda>r c. ts e ! (r + c))"
    unfolding tabulate_def by (auto simp: nth)
  then have "BasicSSA_embedseries e
           = Inr \<lparr>nrows = m, ncols = n, rows = tabulate m n (\<lambda>r c. ts e ! (r + c))\<rparr>"
    using assms(2,3) k len
    by (simp add: BasicSSA_embedseries_def Let_def list_all_iff m_def [symmetric])
  then show ?thesis
    by (simp only: m_def n_def)
qed

lemma map2_same: "map2 h (map f xs) (map g xs) = map (\<lambda>a. h (f a) (g a)) xs"
  by (induction xs) simp_all

lemma column_entries: "length (rows a) = k \<Longrightarrow> column a j = map (\<lambda>r. entry a r j) [0..<k]"
proof -
  assume "length (rows a) = k"
  then have "map (\<lambda>r. entry a r j) [0..<k] = map (\<lambda>row. row ! j) (map ((!) (rows a)) [0..<length (rows a)])"
    by (simp add: entry_def comp_def del: map_nth)
  then show ?thesis
    by (simp only: map_nth column_def)
qed

lemma component_entries:
  assumes "rows x = tabulate m n X" and "nrows x = m" and "ncols x = n"
    and "length (rows u) = m" and "nrows u = m"
    and "i < length s" and "i < ncols u" and "0 < s ! i"
  shows "BasicSSA_component (Some u, Some s, v) x (int i)
           = Inr (tabulate m n (\<lambda>r c. Some (entry u r i * (\<Sum>r'\<leftarrow>[0..<m]. X r' c * entry u r' i))))"
proof -
  have idx: "py_index (length s) (int i) = Some i" "py_index (ncols u) (int i) = Some i"
    using assms(6,7) by (simp_all add: py_index_def)
  have root: "fsqrt (s ! i) = Some (sqrt (s ! i))" "sqrt (s ! i) \<noteq> 0"
    using assms(8) by (simp_all add: fsqrt_def)
  have colx: "column x c = map (\<lambda>r. X r c) [0..<m]" if "c < n" for c
    using that by (simp add: column_def assms(1) tabulate_def)
  have xtu: "sum_list (map2 (*) (column x c) (column u i)) = (\<Sum>r'\<leftarrow>[0..<m]. X r' c * entry u r' i)"
    if "c < n" for c
    by (simp only: colx [OF that] column_entries [OF assms(4)] map2_same)
  define T where "T c = (\<Sum>r'\<leftarrow>[0..<m]. X r' c * entry u r' i)" for c
  define \<sigma> where "\<sigma> = sqrt (s ! i)"
  have v_i: "map (\<lambda>a. fdiv (Some a) (Some \<sigma>))
               (map (\<lambda>c. sum_list (map2 (*) (column x c) (column u i))) [0..<n])
             = map (\<lambda>c. Some (T c / \<sigma>)) [0..<n]"
    using root(2) by (simp add: fdiv_def xtu T_def \<sigma>_def)
  have su: "map (\<lambda>a. fmul (Some \<sigma>) (Some a)) (column u i) = map (\<lambda>r. Some (\<sigma> * entry u r i)) [0..<m]"
    by (simp add: column_entries [OF assms(4)] fmul_def)
  have "map (\<lambda>a. map (\<lambda>b. fmul a b) (map (\<lambda>c. Some (T c / \<sigma>)) [0..<n]))
            (map (\<lambda>r. Some (\<sigma> * entry u r i)) [0..<m])
        = tabulate m n (\<lambda>r c. Some (entry u r i * T c))"
    using root(2) by (simp add: tabulate_def fmul_def \<sigma>_def)
  then have "map (\<lambda>a. map (\<lambda>b. fmul a b)
               (map (\<lambda>a. fdiv (Some a) (Some (sqrt (s ! i))))
                  (map (\<lambda>c. sum_list (map2 (*) (column x c) (column u i))) [0..<n])))
           (map (\<lambda>a. fmul (Some (sqrt (s ! i))) (Some a)) (column u i))
        = tabulate m n (\<lambda>r c. Some (entry u r i * (\<Sum>r'\<leftarrow>[0..<m]. X r' c * entry u r' i)))"
    by (simp only: v_i su \<sigma>_def [symmetric]) (simp only: T_def)
  moreover have "BasicSSA_component (Some u, Some s, v) x (int i)
      = Inr (map (\<lambda>a. map (\<lambda>b. fmul a b)
               (map (\<lambda>a. fdiv (Some a) (Some (sqrt (s ! i))))
                  (map (\<lambda>c. sum_list (map2 (*) (column x c) (column u i))) [0..<n])))
           (map (\<lambda>a. fmul (Some (sqrt (s ! i))) (Some a)) (column u i)))"
    using assms(2,3,5) by (simp add: BasicSSA_component_def idx root(1) Let_def del: map_map)
  ultimately show ?thesis
    by (simp only:)
qed

lemma madd_tabulate:
  "madd (tabulate m n (\<lambda>r c. Some (a r c))) (tabulate m n (\<lambda>r c. Some (b r c)))
     = tabulate m n (\<lambda>r c. Some (a r c + b r c))"
  by (simp add: madd_def tabulate_def map2_same fadd_def)

lemma group_loop_sum:
  assumes "\<And>i. i \<in> set idx \<Longrightarrow> component i = Inr (tabulate m n (\<lambda>r c. Some (f i r c)))"
  shows "group_loop component idx (tabulate m n (\<lambda>r c. Some (a r c)))
           = Inr (tabulate m n (\<lambda>r c. Some (a r c + (\<Sum>i\<leftarrow>idx. f i r c))))"
  using assms
proof (induction idx arbitrary: a)
  case Nil
  then show ?case by simp
next
  case (Cons i idx)
  have "group_loop component (i # idx) (tabulate m n (\<lambda>r c. Some (a r c)))
          = group_loop component idx (tabulate m n (\<lambda>r c. Some (a r c + f i r c)))"
    using Cons.prems [of i] by (simp add: madd_tabulate)
  also have "\<dots> = Inr (tabulate m n (\<lambda>r c. Some (a r c + f i r c + (\<Sum>j\<leftarrow>idx. f j r c))))"
    using Cons.prems by (intro Cons.IH) simp
  finally show ?case
    by (simp add: add.assoc)
qed

lemma projection_sum:
  fixes U V :: "nat \<Rightarrow> nat \<Rightarrow> real" and s :: "nat \<Rightarrow> real"
  assumes fact: "\<And>r c. r < m \<Longrightarrow> c < n \<Longrightarrow> X r c = (\<Sum>j = 0..<R. U r j * s j * V j c)"
    and orth: "\<And>i j. i < R \<Longrightarrow> j < R \<Longrightarrow> (\<Sum>r = 0..<m. U r i * U r j) = (if i = j then 1 else 0)"
    and "r < m" and "c < n"
  shows "(\<Sum>i = 0..<R. U r i * (\<Sum>r' = 0..<m. X r' c * U r' i)) = X r c"
proof -
  have inner: "(\<Sum>r' = 0..<m. X r' c * U r' i) = s i * V i c" if "i < R" for i
  proof -
    have "(\<Sum>r' = 0..<m. X r' c * U r' i)
            = (\<Sum>r' = 0..<m. \<Sum>j = 0..<R. s j * V j c * (U r' j * U r' i))"
      using assms(4) by (simp add: fact sum_distrib_left sum_distrib_right mult_ac)
    also have "\<dots> = (\<Sum>j = 0..<R. \<Sum>r' = 0..<m. s j * V j c * (U r' j * U r' i))"
      by (rule sum.swap)
    also have "\<dots> = (\<Sum>j = 0..<R. s j * V j c * (\<Sum>r' = 0..<m. U r' j * U r' i))"
      by (simp add: sum_distrib_left)
    also have "\<dots> = (\<Sum>j = 0..<R. s j * V j c * (if j = i then 1 else 0))"
      using that by (intro sum.cong refl) (simp add: orth)
    also have "\<dots> = s i * V i c"
      using that by (simp add: sum.delta if_distrib [of "\<lambda>z. _ * z"] cong: if_cong)
    finally show ?thesis .
  qed
  have "(\<Sum>i = 0..<R. U r i * (\<Sum>r' = 0..<m. X r' c * U r' i)) = (\<Sum>i = 0..<R. U r i * s i * V i c)"
    by (intro sum.cong refl) (simp add: inner mult.assoc)
  also have "\<dots> = X r c"
    using assms(3,4) by (simp add: fact)
  finally show ?thesis .
qed

lemma zeros_tabulate: "zeros m n = tabulate m n (\<lambda>r c. Some 0)"
  by (simp add: zeros_def tabulate_def map_replicate_const)

lemma sum_list_upt: "(\<Sum>i\<leftarrow>[0..<k]. f i) = (\<Sum>i = 0..<k. f i)" for f :: "nat \<Rightarrow> real"
  by (simp add: interv_sum_list_conv_sum_set_nat)

lemma full_reconstruction_roundtrip:
  assumes "cls e = BasicSSA"
    and inv: "n_ts e = length (ts e)" "traj_k e = Some (int (n_ts e) - window e + 1)"
    and win: "1 \<le> window e" "window e \<le> int (length (ts e))"
    and emb: "embedseries e = Inr x"
    and dec: "svd e = (Some u, Some s, Some v)"
    and svd: "is_svd x (u, s, v)"
    and pos: "list_all (\<lambda>a. 0 < a) s"
  shows "reconstruct_group (Some (ListV (py_range (length s)))) e = Inr (map Some (ts e))"
proof -
  define m where "m = nat (window e)"
  define n where "n = length (ts e) - m + 1"
  define X where "X r c = ts e ! (r + c)" for r c
  define U where "U r i = entry u r i" for r i
  define P where "P i r c = U r (nat i) * (\<Sum>r' = 0..<m. X r' c * U r' (nat i))" for i r c
  have mn: "0 < m" "0 < n" "length (ts e) = m + n - 1"
    using win by (simp_all add: m_def n_def)
  have bemb: "BasicSSA_embedseries e = Inr \<lparr>nrows = m, ncols = n, rows = tabulate m n X\<rparr>"
    using embedding_entries [OF inv _ win(2)] win(1) by (simp add: m_def n_def X_def [abs_def])
  with emb assms(1) have x: "x = \<lparr>nrows = m, ncols = n, rows = tabulate m n X\<rparr>"
    by (simp add: embedseries_def)
  have shape: "length (rows u) = m" "nrows u = m" "length s \<le> ncols u"
    using svd by (simp_all add: is_svd_def well_formed_def x)
  from svd have factorization:
      "\<forall>r \<in> {0..<nrows x}. \<forall>c \<in> {0..<ncols x}.
         entry x r c = (\<Sum>j\<leftarrow>[0..<length s]. entry u r j * s ! j * entry v j c)"
    and columns:
      "\<forall>i \<in> {0..<length s}. \<forall>j \<in> {0..<length s}.
         (\<Sum>r\<leftarrow>[0..<nrows u]. entry u r i * entry u r j) = (if i = j then 1 else 0)"
    unfolding is_svd_def orthonormal_def list_all_iff set_upt prod.case by blast+
  have fact: "X r c = (\<Sum>j = 0..<length s. U r j * s ! j * entry v j c)" if "r < m" "c < n" for r c
  proof -
    from factorization that have "entry x r c = (\<Sum>j\<leftarrow>[0..<length s]. entry u r j * s ! j * entry v j c)"
      by (simp add: x)
    with that show ?thesis
      by (simp add: sum_list_upt x entry_def tabulate_nth U_def)
  qed
  have orth: "(\<Sum>r = 0..<m. U r i * U r j) = (if i = j then 1 else 0)"
    if "i < length s" "j < length s" for i j
  proof -
    from columns that have "(\<Sum>r\<leftarrow>[0..<nrows u]. entry u r i * entry u r j) = (if i = j then 1 else 0)"
      by simp
    then show ?thesis
      by (simp add: sum_list_upt shape U_def)
  qed
  have comp: "BasicSSA_component (svd e) x i = Inr (tabulate m n (\<lambda>r c. Some (P i r c)))"
    if "i \<in> set (py_range (length s))" for i
  proof -
    from that obtain i' where i': "i = int i'" "i' < length s"
      by (auto simp: py_range_def)
    with pos have "0 < s ! i'"
      by (simp add: list_all_length)
    from component_entries [of x m n X u i' s "Some v", OF _ _ _ shape(1,2) i'(2) _ this] i'(2) shape(3)
    show ?thesis
      by (simp add: x dec i'(1) P_def U_def sum_list_upt)
  qed
  have total: "0 + (\<Sum>i\<leftarrow>py_range (length s). P i r c) = X r c" if "r < m" "c < n" for r c
  proof -
    have "(\<Sum>i\<leftarrow>py_range (length s). P i r c)
            = (\<Sum>i = 0..<length s. U r i * (\<Sum>r' = 0..<m. X r' c * U r' i))"
      by (simp add: py_range_def comp_def P_def sum_list_upt)
    also have "\<dots> = X r c"
      using fact orth that by (rule projection_sum)
    finally show ?thesis by simp
  qed
  have loop: "group_loop (BasicSSA_component (svd e) x) (py_range (length s)) (zeros m n)
                = Inr (tabulate m n (\<lambda>r c. Some (0 + (\<Sum>i\<leftarrow>py_range (length s). P i r c))))"
    unfolding zeros_tabulate using comp by (rule group_loop_sum)
  have "BasicSSA_hankelmatrix_to_ts
          \<lparr>nrows = m, ncols = n,
           rows = tabulate m n (\<lambda>r c. Some (0 + (\<Sum>i\<leftarrow>py_range (length s). P i r c)))\<rparr>
        = map Some (ts e)"
    using mn by (rule hankel_of_trajectory) (simp only: total X_def)
  with loop [unfolded x] show ?thesis
    using assms(1) by (simp add: reconstruct_group_def BasicSSA_reconstruct_group_def bemb)
qed

lemma getitem_full_reconstruction:
  assumes "cls e = BasicSSA"
    and "n_ts e = length (ts e)" "traj_k e = Some (int (n_ts e) - window e + 1)"
    and "1 \<le> window e" "window e \<le> int (length (ts e))"
    and "embedseries e = Inr x"
    and dec: "svd e = (Some u, Some s, Some v)"
    and "is_svd x (u, s, v)"
    and "list_all (\<lambda>a. 0 < a) s"
    and ug: "usergroups e = Some ug" "''ssa_reconstruction'' \<notin> set (map fst ug)"
  shows "getitem ''ssa_reconstruction'' e = Inr (map Some (ts e))"
proof -
  have n: "n_components e = Inr (length s)"
    by (simp add: n_components_def dec)
  have "\<exists>g. groups e = Inr g"
    by (simp add: groups_def n Let_def split: option.splits list.splits)
  then obtain g where "groups e = Inr g" ..
  with n ug full_reconstruction_roundtrip [OF assms(1-9)] show ?thesis
    by (simp add: getitem_def)
qed

text \<open>
  The hypotheses hold of the engine of \<open>[1, 0, 0, 1]\<close> with the group \<open>trend\<close>.
\<close>

lemma full_reconstruction_example:
  "getitem ''ssa_reconstruction'' grouped_engine = Inr [Some 1, Some 0, Some 0, Some 1]"
proof -
  have x: "embedseries grouped_engine = Inr \<lparr>nrows = 2, ncols = 3, rows = [[1, 0, 0], [0, 0, 1]]\<rparr>"
    by (simp add: embedseries_def grouped_engine_def decomposed_engine_def fresh_engine_def
        evaluation_defs)
  have sv: "is_svd \<lparr>nrows = 2, ncols = 3, rows = [[1, 0, 0], [0, 0, 1]]\<rparr>
              (fst example_svd, fst (snd example_svd), snd (snd example_svd))"
    using is_svd_example by simp
  have "getitem ''ssa_reconstruction'' grouped_engine = Inr (map Some (ts grouped_engine))"
    by (rule getitem_full_reconstruction
          [where ug = "[(''trend'', IntV 0)]", OF _ _ _ _ _ x _ sv])
      (simp_all add: grouped_engine_def decomposed_engine_def fresh_engine_def example_svd_def)
  then show ?thesis
    by (simp add: grouped_engine_def decomposed_engine_def fresh_engine_def)
qed

end
